theory Spec2Isabelle
  imports Complex_Main "HOL-Library.Char_ord" "HOL-Library.List_Lexorder"
begin

section \<open>JavaScript values and the built-ins the routes call\<close>

text \<open>
  The API routes receive query-string parameters (strings, or null when the parameter is
  absent) and JSON bodies. A body is an object whose fields hold scalar JSON values; a field
  that is absent reads as \<open>undefined\<close>. JavaScript numbers are modelled as exact rationals,
  with \<open>None\<close> standing for NaN: IEEE rounding, the signed zero and the infinities are
  outside this model.
\<close>

datatype jsval = JUndefined | JNull | JBool bool | JNum rat | JStr string

text \<open>An object is the list of its properties, each key once.\<close>

type_synonym jsobj = "(string \<times> jsval) list"

definition field :: "jsobj \<Rightarrow> string \<Rightarrow> jsval" where
  "field b k = (case map_of b k of None \<Rightarrow> JUndefined | Some v \<Rightarrow> v)"

fun truthy :: "jsval \<Rightarrow> bool" where
  "truthy JUndefined = False"
| "truthy JNull = False"
| "truthy (JBool b) = b"
| "truthy (JNum r) = (r \<noteq> 0)"
| "truthy (JStr s) = (s \<noteq> [])"

definition nullish :: "jsval \<Rightarrow> bool" where
  "nullish v = (v = JUndefined \<or> v = JNull)"

text \<open>The string a value is, when \<open>typeof\<close> says it is one.\<close>

definition as_string :: "jsval \<Rightarrow> string option" where
  "as_string v = (case v of JStr s \<Rightarrow> Some s | _ \<Rightarrow> None)"

text \<open>White space is the ASCII white space; strings are byte strings.\<close>

definition is_ws :: "char \<Rightarrow> bool" where
  "is_ws c = (c \<in> set [CHR '' '', CHR 0x09, CHR 0x0A, CHR 0x0B, CHR 0x0C, CHR 0x0D])"

definition trim :: "string \<Rightarrow> string" where
  "trim s = rev (dropWhile is_ws (rev (dropWhile is_ws s)))"

definition upper_char :: "char \<Rightarrow> char" where
  "upper_char c = (if CHR ''a'' \<le> c \<and> c \<le> CHR ''z'' then char_of (of_char c - (32::nat)) else c)"

definition lower_char :: "char \<Rightarrow> char" where
  "lower_char c = (if CHR ''A'' \<le> c \<and> c \<le> CHR ''Z'' then char_of (of_char c + (32::nat)) else c)"

definition toUpperCase :: "string \<Rightarrow> string" where
  "toUpperCase s = map upper_char s"

definition toLowerCase :: "string \<Rightarrow> string" where
  "toLowerCase s = map lower_char s"

text \<open>
  \<open>parseInt\<close> with no radix: leading white space is skipped, a sign is read, a \<open>0x\<close> prefix
  selects radix 16, and the longest prefix of digits is converted; no digit gives NaN.
\<close>

definition digit_val :: "char \<Rightarrow> nat option" where
  "digit_val c =
     (if CHR ''0'' \<le> c \<and> c \<le> CHR ''9'' then Some (of_char c - 48)
      else if CHR ''a'' \<le> c \<and> c \<le> CHR ''f'' then Some (of_char c - 87)
      else if CHR ''A'' \<le> c \<and> c \<le> CHR ''F'' then Some (of_char c - 55)
      else None)"

definition is_digit :: "nat \<Rightarrow> char \<Rightarrow> bool" where
  "is_digit radix c = (case digit_val c of None \<Rightarrow> False | Some d \<Rightarrow> d < radix)"

definition digits_val :: "nat \<Rightarrow> string \<Rightarrow> nat" where
  "digits_val radix ds = foldl (\<lambda>acc c. acc * radix + (case digit_val c of None \<Rightarrow> 0 | Some d \<Rightarrow> d)) 0 ds"

definition split_sign :: "string \<Rightarrow> bool \<times> string" where
  "split_sign s =
     (case s of
        c # rest \<Rightarrow> if c = CHR ''-'' then (True, rest) else if c = CHR ''+'' then (False, rest) else (False, s)
      | [] \<Rightarrow> (False, []))"

definition split_radix :: "string \<Rightarrow> nat \<times> string" where
  "split_radix s =
     (case s of
        c # d # rest \<Rightarrow> if c = CHR ''0'' \<and> (d = CHR ''x'' \<or> d = CHR ''X'') then (16, rest) else (10, s)
      | _ \<Rightarrow> (10, s))"

definition parseIntStr :: "string \<Rightarrow> int option" where
  "parseIntStr s =
     (let (neg, s1) = split_sign (dropWhile is_ws s);
          (radix, s2) = split_radix s1;
          ds = takeWhile (is_digit radix) s2
      in if ds = [] then None
         else Some (if neg then - int (digits_val radix ds) else int (digits_val radix ds)))"

text \<open>
  \<open>parseFloat\<close>: leading white space, a sign, then the longest prefix that is a decimal
  literal (digits, an optional fraction, an optional exponent that has at least one digit).
  The literal \<open>Infinity\<close> has no value in this model and reads as NaN here.
\<close>

definition pow10 :: "int \<Rightarrow> rat" where
  "pow10 e = (if 0 \<le> e then 10 ^ nat e else 1 / 10 ^ nat (- e))"

definition parse_exponent :: "string \<Rightarrow> int" where
  "parse_exponent s =
     (case s of
        c # rest \<Rightarrow>
          if c = CHR ''e'' \<or> c = CHR ''E'' then
            (let (neg, r1) = split_sign rest; ds = takeWhile (is_digit 10) r1
             in if ds = [] then 0
                else if neg then - int (digits_val 10 ds) else int (digits_val 10 ds))
          else 0
      | [] \<Rightarrow> 0)"

definition parseFloatStr :: "string \<Rightarrow> rat option" where
  "parseFloatStr s =
     (let (neg, s1) = split_sign (dropWhile is_ws s);
          ip = takeWhile (is_digit 10) s1;
          s2 = dropWhile (is_digit 10) s1;
          fp = (case s2 of c # r \<Rightarrow> if c = CHR ''.'' then takeWhile (is_digit 10) r else [] | [] \<Rightarrow> []);
          s3 = (case s2 of c # r \<Rightarrow> if c = CHR ''.'' \<and> (ip \<noteq> [] \<or> fp \<noteq> [])
                                      then dropWhile (is_digit 10) r else s2
                         | [] \<Rightarrow> []);
          m = (of_nat (digits_val 10 ip) + of_nat (digits_val 10 fp) / 10 ^ length fp) * pow10 (parse_exponent s3)
      in if ip = [] \<and> fp = [] then None else Some (if neg then - m else m))"

text \<open>
  Applied to a value that is not a string, both built-ins first convert it to a string.
  A number prints in plain decimal notation when it is 0 or has magnitude from \<open>10\<^sup>-\<^sup>6\<close>
  up to \<open>10\<^sup>2\<^sup>1\<close>, and then \<open>parseInt\<close> truncates towards zero and \<open>parseFloat\<close> returns the
  number; numbers are modelled in that range. \<open>undefined\<close>, \<open>null\<close> and the booleans print
  as words with no digit.
\<close>

definition trunc :: "rat \<Rightarrow> int" where
  "trunc r = (if 0 \<le> r then \<lfloor>r\<rfloor> else \<lceil>r\<rceil>)"

fun parseInt :: "jsval \<Rightarrow> int option" where
  "parseInt (JStr s) = parseIntStr s"
| "parseInt (JNum r) = Some (trunc r)"
| "parseInt _ = None"

fun parseFloat :: "jsval \<Rightarrow> rat option" where
  "parseFloat (JStr s) = parseFloatStr s"
| "parseFloat (JNum r) = Some r"
| "parseFloat _ = None"

definition isNaN :: "'a option \<Rightarrow> bool" where
  "isNaN x = (x = None)"

definition Math_min :: "int option \<Rightarrow> int \<Rightarrow> int option" where
  "Math_min a b = (case a of None \<Rightarrow> None | Some x \<Rightarrow> Some (min x b))"

text \<open>\<open>searchParams.get(k) ?? d\<close>: only an absent parameter takes the default.\<close>

definition or_default :: "string option \<Rightarrow> string \<Rightarrow> string" where
  "or_default p d = (case p of None \<Rightarrow> d | Some s \<Rightarrow> s)"

text \<open>\<open>if (p)\<close> on a query parameter: present and not the empty string.\<close>

definition given :: "string option \<Rightarrow> bool" where
  "given p = (case p of None \<Rightarrow> False | Some s \<Rightarrow> s \<noteq> [])"

text \<open>
  The guard \<open>!id || isNaN(parseInt(id))\<close> of the handlers that need an id: the integer the
  parameter holds, or nothing when the guard rejects it.
\<close>

definition id_param :: "string option \<Rightarrow> int option" where
  "id_param p = (if given p then parseIntStr (or_default p []) else None)"

section \<open>The relational store\<close>

text \<open>
  The tables of the schema that the wallet and order logic reads and writes. The columns
  \<open>created_at\<close> and \<open>updated_at\<close> hold the ISO-8601 text of \<open>new Date().toISOString()\<close>;
  each handler takes that text as its argument \<open>now\<close>. Field names carry the table's
  initial because the tables share column names.
\<close>

record user =
  u_id :: int
  u_email :: string
  u_password :: string
  u_name :: string
  u_role :: string
  u_balance :: rat
  u_apiKey :: "string option"
  u_status :: string
  u_createdAt :: string
  u_updatedAt :: string

record service =
  s_id :: int
  s_name :: string
  s_rate :: rat
  s_minOrder :: int
  s_maxOrder :: int
  s_status :: string

record order =
  o_id :: int
  o_userId :: int
  o_serviceId :: int
  o_link :: string
  o_quantity :: int
  o_charge :: rat
  o_startCount :: "int option"
  o_remains :: "int option"
  o_status :: string
  o_providerOrderId :: "string option"
  o_createdAt :: string
  o_updatedAt :: string

record transaction =
  t_id :: int
  t_userId :: int
  t_type :: string
  t_amount :: rat
  t_balanceBefore :: rat
  t_balanceAfter :: rat
  t_description :: string
  t_orderId :: "int option"
  t_createdAt :: string

text \<open>
  Every primary key is \<open>integer PRIMARY KEY AUTOINCREMENT\<close>: a new row takes one more than
  the largest key the table has ever held, which the store keeps per table.
\<close>

record store =
  users :: "user list"
  services :: "service list"
  orders :: "order list"
  transactions :: "transaction list"
  users_seq :: int
  orders_seq :: int
  transactions_seq :: int

definition fresh_id :: "int \<Rightarrow> int list \<Rightarrow> int" where
  "fresh_id seq ids = foldr max ids seq + 1"

text \<open>
  The query layer. \<open>ORDER BY created_at DESC\<close> compares the texts; \<open>LIMIT\<close> and \<open>OFFSET\<close>
  follow SQLite, the dialect of the migration: a negative limit puts no bound on the number
  of rows, and a negative offset counts as 0. A NaN cannot be bound as a parameter, so a
  statement given one fails and the handler's \<open>catch\<close> answers 500.
\<close>

definition order_by_desc :: "('a \<Rightarrow> string) \<Rightarrow> 'a list \<Rightarrow> 'a list" where
  "order_by_desc k rows = rev (sort_key k rows)"

definition sql_limit_offset :: "int \<Rightarrow> int \<Rightarrow> 'a list \<Rightarrow> 'a list" where
  "sql_limit_offset l off rows =
     (let rest = drop (nat off) rows in if l < 0 then rest else take (nat l) rest)"

definition where_and :: "('a \<Rightarrow> bool) list \<Rightarrow> 'a list \<Rightarrow> 'a list" where
  "where_and conditions rows = filter (\<lambda>r. list_all (\<lambda>c. c r) conditions) rows"

section \<open>Responses\<close>

datatype body =
    BError string "string option"
  | BUser jsobj
  | BUsers "jsobj list"
  | BUserDeleted string jsobj
  | BMe jsobj
  | BOrder order
  | BOrders "order list"
  | BOrderDeleted string order
  | BTransaction transaction
  | BTransactions "transaction list"
  | BTransactionDeleted string transaction

datatype response = Response (status_of: nat) (body_of: body)

definition bad_request :: "string \<Rightarrow> string \<Rightarrow> response" where
  "bad_request msg code = Response 400 (BError msg (Some code))"

definition not_found :: "string \<Rightarrow> string \<Rightarrow> response" where
  "not_found msg code = Response 404 (BError msg (Some code))"

text \<open>
  The \<open>catch\<close> block of every handler: status 500 with the text
  \<open>Internal server error: \<close> followed by the message of what was thrown, which is left out.
\<close>

definition server_error :: response where
  "server_error = Response 500 (BError ''Internal server error: '' None)"

text \<open>
  The query string is the list of its parameters in order; \<open>searchParams.get\<close> returns the
  first value of a name, or null.
\<close>

type_synonym params = "(string \<times> string) list"

definition get :: "params \<Rightarrow> string \<Rightarrow> string option" where
  "get sp k = map_of sp k"

section \<open>The transactions route\<close>

definition VALID_TRANSACTION_TYPES :: "string list" where
  "VALID_TRANSACTION_TYPES = [''DEPOSIT'', ''ORDER'', ''REFUND'', ''ADMIN_ADJUSTMENT'']"

definition invalid_type_msg :: string where
  "invalid_type_msg = ''Invalid type. Must be one of: DEPOSIT, ORDER, REFUND, ADMIN_ADJUSTMENT''"

definition transactions_GET :: "store \<Rightarrow> params \<Rightarrow> response" where
  "transactions_GET st sp =
     (if given (get sp ''id'') then
        (case parseIntStr (or_default (get sp ''id'') []) of
           None \<Rightarrow> bad_request ''Valid ID is required'' ''INVALID_ID''
         | Some n \<Rightarrow>
             (case filter (\<lambda>t. t_id t = n) (transactions st) of
                [] \<Rightarrow> not_found ''Transaction not found'' ''TRANSACTION_NOT_FOUND''
              | t # _ \<Rightarrow> Response 200 (BTransaction t)))
      else
        let limit = Math_min (parseIntStr (or_default (get sp ''limit'') ''10'')) 100;
            offset = parseIntStr (or_default (get sp ''offset'') ''0'');
            userId = get sp ''userId'';
            type = get sp ''type'';
            orderId = get sp ''orderId''
        in
        if given userId \<and> isNaN (parseIntStr (or_default userId [])) then
          bad_request ''Valid userId is required'' ''INVALID_USER_ID''
        else if given type \<and> or_default type [] \<notin> set VALID_TRANSACTION_TYPES then
          bad_request invalid_type_msg ''INVALID_TYPE''
        else if given orderId \<and> isNaN (parseIntStr (or_default orderId [])) then
          bad_request ''Valid orderId is required'' ''INVALID_ORDER_ID''
        else
          let conditions =
                (if given userId then [\<lambda>t. Some (t_userId t) = parseIntStr (or_default userId [])] else [])
                @ (if given type then [\<lambda>t. t_type t = or_default type []] else [])
                @ (if given orderId then [\<lambda>t. t_orderId t \<noteq> None \<and> t_orderId t = parseIntStr (or_default orderId [])] else [])
          in
          (case (limit, offset) of
             (Some l, Some off) \<Rightarrow>
               Response 200 (BTransactions
                 (sql_limit_offset l off (order_by_desc t_createdAt (where_and conditions (transactions st)))))
           | _ \<Rightarrow> server_error))"

text \<open>
  POST inserts one row built from the body. The columns \<open>amount\<close>, \<open>balance_before\<close> and
  \<open>balance_after\<close> are \<open>real NOT NULL\<close>, so a NaN among them makes the insert fail;
  \<open>description.trim()\<close> throws when the description is not a string.
\<close>

definition transactions_POST :: "store \<Rightarrow> jsobj \<Rightarrow> string \<Rightarrow> response \<times> store" where
  "transactions_POST st b now =
     (let userId = field b ''userId''; type = field b ''type''; amount = field b ''amount'';
          balanceBefore = field b ''balanceBefore''; balanceAfter = field b ''balanceAfter'';
          description = field b ''description''; orderId = field b ''orderId''
      in
      if \<not> truthy userId then (bad_request ''userId is required'' ''MISSING_USER_ID'', st)
      else if \<not> truthy type then (bad_request ''type is required'' ''MISSING_TYPE'', st)
      else if nullish amount then (bad_request ''amount is required'' ''MISSING_AMOUNT'', st)
      else if nullish balanceBefore then
        (bad_request ''balanceBefore is required'' ''MISSING_BALANCE_BEFORE'', st)
      else if nullish balanceAfter then
        (bad_request ''balanceAfter is required'' ''MISSING_BALANCE_AFTER'', st)
      else if \<not> truthy description then
        (bad_request ''description is required'' ''MISSING_DESCRIPTION'', st)
      else if type \<notin> JStr ` set VALID_TRANSACTION_TYPES then
        (bad_request invalid_type_msg ''INVALID_TYPE'', st)
      else if amount = JNum 0 then (bad_request ''amount cannot be zero'' ''INVALID_AMOUNT'', st)
      else if isNaN (parseInt userId) then
        (bad_request ''userId must be a valid integer'' ''INVALID_USER_ID'', st)
      else if \<not> nullish orderId \<and> isNaN (parseInt orderId) then
        (bad_request ''orderId must be a valid integer'' ''INVALID_ORDER_ID'', st)
      else
        (case as_string type of
           Some ty \<Rightarrow>
             (case as_string description of
                Some d \<Rightarrow>
                  (case parseInt userId of
                     Some uid \<Rightarrow>
                       (case parseFloat amount of
                          Some a \<Rightarrow>
                            (case parseFloat balanceBefore of
                               Some bb \<Rightarrow>
                                 (case parseFloat balanceAfter of
                                    Some ba \<Rightarrow>
                                      (let row = \<lparr> t_id = fresh_id (transactions_seq st) (map t_id (transactions st)),
                                                   t_userId = uid, t_type = trim ty, t_amount = a,
                                                   t_balanceBefore = bb, t_balanceAfter = ba,
                                                   t_description = trim d,
                                                   t_orderId = (if nullish orderId then None else parseInt orderId),
                                                   t_createdAt = now \<rparr>
                                       in (Response 201 (BTransaction row),
                                           st\<lparr> transactions := transactions st @ [row],
                                                 transactions_seq := t_id row \<rparr>))
                                  | None \<Rightarrow> (server_error, st))
                             | None \<Rightarrow> (server_error, st))
                        | None \<Rightarrow> (server_error, st))
                   | None \<Rightarrow> (server_error, st))
              | None \<Rightarrow> (server_error, st))
         | None \<Rightarrow> (server_error, st)))"


section \<open>The users route\<close>

text \<open>
  A row read from the \<open>users\<close> table is a JavaScript object with one property per column.
\<close>

definition user_row :: "user \<Rightarrow> jsobj" where
  "user_row u =
     [(''id'', JNum (of_int (u_id u))), (''email'', JStr (u_email u)),
      (''password'', JStr (u_password u)), (''name'', JStr (u_name u)),
      (''role'', JStr (u_role u)), (''balance'', JNum (u_balance u)),
      (''apiKey'', case u_apiKey u of None \<Rightarrow> JNull | Some k \<Rightarrow> JStr k),
      (''status'', JStr (u_status u)), (''createdAt'', JStr (u_createdAt u)),
      (''updatedAt'', JStr (u_updatedAt u))]"

definition excludePassword :: "jsobj \<Rightarrow> jsobj" where
  "excludePassword user = filter (\<lambda>(k, v). k \<noteq> ''password'') user"

definition email_char :: "char \<Rightarrow> bool" where
  "email_char c = (\<not> is_ws c \<and> c \<noteq> CHR ''@'')"

text \<open>
  The pattern \<open>^[^\s@]+@[^\s@]+\.[^\s@]+$\<close>: one \<open>@\<close>, no white space, and after the \<open>@\<close> a
  dot that has at least one character on each side.
\<close>

definition isValidEmail :: "string \<Rightarrow> bool" where
  "isValidEmail email =
     (let local = takeWhile (\<lambda>c. c \<noteq> CHR ''@'') email
      in case dropWhile (\<lambda>c. c \<noteq> CHR ''@'') email of
           [] \<Rightarrow> False
         | _ # host \<Rightarrow>
             local \<noteq> [] \<and> list_all email_char local \<and> list_all email_char host
             \<and> list_ex (\<lambda>i. host ! i = CHR ''.'') [1..<length host - 1])"

text \<open>
  SQL \<open>LIKE\<close> as SQLite evaluates it: \<open>%\<close> stands for any run of characters, \<open>_\<close> for
  one character, and ASCII letters match without regard to case.
\<close>

fun sql_like :: "string \<Rightarrow> string \<Rightarrow> bool" where
  "sql_like [] t = (t = [])"
| "sql_like (p # ps) t =
     (if p = CHR ''%'' then list_ex (\<lambda>k. sql_like ps (drop k t)) [0..<Suc (length t)]
      else (case t of
              [] \<Rightarrow> False
            | c # cs \<Rightarrow> (p = CHR ''_'' \<or> lower_char p = lower_char c) \<and> sql_like ps cs))"

definition contains_like :: "string \<Rightarrow> string \<Rightarrow> bool" where
  "contains_like search column = sql_like (''%'' @ search @ ''%'') column"

definition VALID_ROLES :: "string list" where
  "VALID_ROLES = [''USER'', ''ADMIN'']"

definition VALID_USER_STATUSES :: "string list" where
  "VALID_USER_STATUSES = [''ACTIVE'', ''SUSPENDED'', ''BANNED'']"

definition invalid_role :: response where
  "invalid_role = bad_request ''Invalid role. Must be USER or ADMIN'' ''INVALID_ROLE''"

definition invalid_user_status :: response where
  "invalid_user_status =
     bad_request ''Invalid status. Must be ACTIVE, SUSPENDED, or BANNED'' ''INVALID_STATUS''"

definition invalid_balance :: response where
  "invalid_balance = bad_request ''Balance must be a non-negative number'' ''INVALID_BALANCE''"

definition users_GET :: "store \<Rightarrow> params \<Rightarrow> response" where
  "users_GET st sp =
     (if given (get sp ''id'') then
        (case parseIntStr (or_default (get sp ''id'') []) of
           None \<Rightarrow> bad_request ''Valid ID is required'' ''INVALID_ID''
         | Some n \<Rightarrow>
             (case filter (\<lambda>u. u_id u = n) (users st) of
                [] \<Rightarrow> not_found ''User not found'' ''USER_NOT_FOUND''
              | u # _ \<Rightarrow> Response 200 (BUser (excludePassword (user_row u)))))
      else
        let limit = Math_min (parseIntStr (or_default (get sp ''limit'') ''10'')) 100;
            offset = parseIntStr (or_default (get sp ''offset'') ''0'');
            search = get sp ''search''; role = get sp ''role''; status = get sp ''status''
        in
        if given role \<and> toUpperCase (or_default role []) \<notin> set VALID_ROLES then invalid_role
        else if given status \<and> toUpperCase (or_default status []) \<notin> set VALID_USER_STATUSES then
          invalid_user_status
        else
          let conditions =
                (if given search
                 then [\<lambda>u. contains_like (or_default search []) (u_name u)
                            \<or> contains_like (or_default search []) (u_email u)]
                 else [])
                @ (if given role then [\<lambda>u. u_role u = toUpperCase (or_default role [])] else [])
                @ (if given status then [\<lambda>u. u_status u = toUpperCase (or_default status [])] else [])
          in
          (case (limit, offset) of
             (Some l, Some off) \<Rightarrow>
               Response 200 (BUsers (map (excludePassword \<circ> user_row)
                 (sql_limit_offset l off (order_by_desc u_createdAt (where_and conditions (users st))))))
           | _ \<Rightarrow> server_error))"

text \<open>
  The checks of POST and PUT, each giving the response that ends the request, or nothing
  when the check passes. A method called on a value that has no such method
  (\<open>trim\<close>, \<open>toUpperCase\<close> on a non-string) throws, and the \<open>catch\<close> answers 500.
  \<open>bcrypt.hash\<close> is the argument \<open>hash\<close>; it throws when the password is not a string.
\<close>

definition check_enum :: "jsval \<Rightarrow> string list \<Rightarrow> response \<Rightarrow> response option" where
  "check_enum v valid bad =
     (case as_string v of
        Some s \<Rightarrow> if toUpperCase s \<in> set valid then None else Some bad
      | None \<Rightarrow> Some server_error)"

definition check_balance :: "jsval \<Rightarrow> response option" where
  "check_balance balance =
     (case parseFloat balance of
        None \<Rightarrow> Some invalid_balance
      | Some x \<Rightarrow> if x < 0 then Some invalid_balance else None)"

definition post_role :: "jsval \<Rightarrow> response option" where
  "post_role role = (if truthy role then check_enum role VALID_ROLES invalid_role else None)"

definition post_status :: "jsval \<Rightarrow> response option" where
  "post_status status =
     (if truthy status then check_enum status VALID_USER_STATUSES invalid_user_status else None)"

definition post_balance :: "jsval \<Rightarrow> response option" where
  "post_balance balance = (if balance \<noteq> JUndefined then check_balance balance else None)"

text \<open>\<open>balance !== undefined ? parseFloat(balance) : 0.00\<close>, reached after \<open>post_balance\<close>.\<close>

definition balance_or_zero :: "jsval \<Rightarrow> rat" where
  "balance_or_zero balance =
     (if balance \<noteq> JUndefined then (case parseFloat balance of Some x \<Rightarrow> x | None \<Rightarrow> 0) else 0)"

definition short_password :: "jsval \<Rightarrow> bool" where
  "short_password password = (case as_string password of Some p \<Rightarrow> length p < 6 | None \<Rightarrow> False)"

definition upper_or :: "jsval \<Rightarrow> string \<Rightarrow> string" where
  "upper_or v d = (case as_string v of Some s \<Rightarrow> if s = [] then d else toUpperCase s | None \<Rightarrow> d)"

definition users_POST :: "(string \<Rightarrow> string) \<Rightarrow> store \<Rightarrow> jsobj \<Rightarrow> string \<Rightarrow> response \<times> store" where
  "users_POST hash st b now =
     (let email = field b ''email''; password = field b ''password''; name = field b ''name'';
          role = field b ''role''; status = field b ''status''; balance = field b ''balance''
      in
      if \<not> truthy email then (bad_request ''Email is required'' ''MISSING_EMAIL'', st)
      else if \<not> truthy password then (bad_request ''Password is required'' ''MISSING_PASSWORD'', st)
      else if \<not> truthy name then (bad_request ''Name is required'' ''MISSING_NAME'', st)
      else
        (case as_string email of
           Some e \<Rightarrow>
             if \<not> isValidEmail (trim e) then
               (bad_request ''Invalid email format'' ''INVALID_EMAIL_FORMAT'', st)
             else if short_password password then
               (bad_request ''Password must be at least 6 characters'' ''PASSWORD_TOO_SHORT'', st)
             else
               (case post_role role of
                  Some r \<Rightarrow> (r, st)
                | None \<Rightarrow>
               (case post_status status of
                  Some r \<Rightarrow> (r, st)
                | None \<Rightarrow>
               (case post_balance balance of
                  Some r \<Rightarrow> (r, st)
                | None \<Rightarrow>
                    if filter (\<lambda>u. u_email u = trim (toLowerCase e)) (users st) \<noteq> [] then
                      (bad_request ''Email already exists'' ''EMAIL_EXISTS'', st)
                    else
                      (case as_string password of
                         None \<Rightarrow> (server_error, st)
                       | Some p \<Rightarrow>
                      (case as_string name of
                         None \<Rightarrow> (server_error, st)
                       | Some n \<Rightarrow>
                           (let row = \<lparr> u_id = fresh_id (users_seq st) (map u_id (users st)),
                                        u_email = trim (toLowerCase e), u_password = hash p,
                                        u_name = trim n, u_role = upper_or role ''USER'',
                                        u_balance = balance_or_zero balance,
                                        u_apiKey = None, u_status = upper_or status ''ACTIVE'',
                                        u_createdAt = now, u_updatedAt = now \<rparr>
                            in (Response 201 (BUser (excludePassword (user_row row))),
                                st\<lparr> users := users st @ [row], users_seq := u_id row \<rparr>)))))))
         | None \<Rightarrow> (server_error, st)))"

text \<open>
  PUT collects the columns to set in \<open>updateData\<close>, here the function that sets them on a
  row; every step either extends it or ends the request.
\<close>

definition and_then ::
  "response + (user \<Rightarrow> user) \<Rightarrow> ((user \<Rightarrow> user) \<Rightarrow> response + (user \<Rightarrow> user)) \<Rightarrow> response + (user \<Rightarrow> user)" where
  "and_then r step = (case r of Inl e \<Rightarrow> Inl e | Inr upd \<Rightarrow> step upd)"

definition put_name :: "jsval \<Rightarrow> (user \<Rightarrow> user) \<Rightarrow> response + (user \<Rightarrow> user)" where
  "put_name name upd =
     (case name of
        JUndefined \<Rightarrow> Inr upd
      | JStr n \<Rightarrow>
          if trim n = [] then Inl (bad_request ''Name cannot be empty'' ''INVALID_NAME'')
          else Inr (\<lambda>u. (upd u)\<lparr> u_name := trim n \<rparr>)
      | _ \<Rightarrow> Inl server_error)"

definition put_email :: "store \<Rightarrow> int \<Rightarrow> jsval \<Rightarrow> (user \<Rightarrow> user) \<Rightarrow> response + (user \<Rightarrow> user)" where
  "put_email st n email upd =
     (case email of
        JUndefined \<Rightarrow> Inr upd
      | JStr e \<Rightarrow>
          if \<not> isValidEmail (trim e) then
            Inl (bad_request ''Invalid email format'' ''INVALID_EMAIL_FORMAT'')
          else
            (case filter (\<lambda>u. u_email u = trim (toLowerCase e)) (users st) of
               [] \<Rightarrow> Inr (\<lambda>u. (upd u)\<lparr> u_email := trim (toLowerCase e) \<rparr>)
             | x # _ \<Rightarrow>
                 if u_id x \<noteq> n then Inl (bad_request ''Email already exists'' ''EMAIL_EXISTS'')
                 else Inr (\<lambda>u. (upd u)\<lparr> u_email := trim (toLowerCase e) \<rparr>))
      | _ \<Rightarrow> Inl server_error)"

definition put_password ::
  "(string \<Rightarrow> string) \<Rightarrow> jsval \<Rightarrow> (user \<Rightarrow> user) \<Rightarrow> response + (user \<Rightarrow> user)" where
  "put_password hash password upd =
     (case password of
        JUndefined \<Rightarrow> Inr upd
      | JStr p \<Rightarrow>
          if length p < 6 then
            Inl (bad_request ''Password must be at least 6 characters'' ''PASSWORD_TOO_SHORT'')
          else Inr (\<lambda>u. (upd u)\<lparr> u_password := hash p \<rparr>)
      | _ \<Rightarrow> Inl server_error)"

definition put_role :: "jsval \<Rightarrow> (user \<Rightarrow> user) \<Rightarrow> response + (user \<Rightarrow> user)" where
  "put_role role upd =
     (if role = JUndefined then Inr upd
      else case check_enum role VALID_ROLES invalid_role of
             Some r \<Rightarrow> Inl r
           | None \<Rightarrow> Inr (\<lambda>u. (upd u)\<lparr> u_role := upper_or role [] \<rparr>))"

definition put_status :: "jsval \<Rightarrow> (user \<Rightarrow> user) \<Rightarrow> response + (user \<Rightarrow> user)" where
  "put_status status upd =
     (if status = JUndefined then Inr upd
      else case check_enum status VALID_USER_STATUSES invalid_user_status of
             Some r \<Rightarrow> Inl r
           | None \<Rightarrow> Inr (\<lambda>u. (upd u)\<lparr> u_status := upper_or status [] \<rparr>))"

definition put_balance :: "jsval \<Rightarrow> (user \<Rightarrow> user) \<Rightarrow> response + (user \<Rightarrow> user)" where
  "put_balance balance upd =
     (if balance = JUndefined then Inr upd
      else case parseFloat balance of
             None \<Rightarrow> Inl invalid_balance
           | Some x \<Rightarrow> if x < 0 then Inl invalid_balance else Inr (\<lambda>u. (upd u)\<lparr> u_balance := x \<rparr>))"

definition put_apiKey :: "jsval \<Rightarrow> (user \<Rightarrow> user) \<Rightarrow> response + (user \<Rightarrow> user)" where
  "put_apiKey apiKey upd =
     (if apiKey = JUndefined then Inr upd
      else if \<not> truthy apiKey then Inr (\<lambda>u. (upd u)\<lparr> u_apiKey := None \<rparr>)
      else case as_string apiKey of
             Some k \<Rightarrow> Inr (\<lambda>u. (upd u)\<lparr> u_apiKey := Some (trim k) \<rparr>)
           | None \<Rightarrow> Inl server_error)"

definition users_PUT ::
  "(string \<Rightarrow> string) \<Rightarrow> store \<Rightarrow> params \<Rightarrow> jsobj \<Rightarrow> string \<Rightarrow> response \<times> store" where
  "users_PUT hash st sp b now =
     (case id_param (get sp ''id'') of
        None \<Rightarrow> (bad_request ''Valid ID is required'' ''INVALID_ID'', st)
      | Some n \<Rightarrow>
          (case filter (\<lambda>u. u_id u = n) (users st) of
             [] \<Rightarrow> (not_found ''User not found'' ''USER_NOT_FOUND'', st)
           | existing # _ \<Rightarrow>
               (case and_then (and_then (and_then (and_then (and_then (and_then
                       (put_name (field b ''name'') (\<lambda>u. u\<lparr> u_updatedAt := now \<rparr>))
                       (put_email st n (field b ''email'')))
                       (put_password hash (field b ''password'')))
                       (put_role (field b ''role'')))
                       (put_status (field b ''status'')))
                       (put_balance (field b ''balance'')))
                       (put_apiKey (field b ''apiKey'')) of
                  Inl r \<Rightarrow> (r, st)
                | Inr upd \<Rightarrow>
                    (Response 200 (BUser (excludePassword (user_row (upd existing)))),
                     st\<lparr> users := map (\<lambda>u. if u_id u = n then upd u else u) (users st) \<rparr>))))"

definition users_DELETE :: "store \<Rightarrow> params \<Rightarrow> response \<times> store" where
  "users_DELETE st sp =
     (case id_param (get sp ''id'') of
        None \<Rightarrow> (bad_request ''Valid ID is required'' ''INVALID_ID'', st)
      | Some n \<Rightarrow>
          (case filter (\<lambda>u. u_id u = n) (users st) of
             [] \<Rightarrow> (not_found ''User not found'' ''USER_NOT_FOUND'', st)
           | u # _ \<Rightarrow>
               (Response 200 (BUserDeleted ''User deleted successfully'' (excludePassword (user_row u))),
                st\<lparr> users := filter (\<lambda>u. u_id u \<noteq> n) (users st) \<rparr>)))"

section \<open>The orders route\<close>

definition VALID_STATUSES :: "string list" where
  "VALID_STATUSES = [''PENDING'', ''PROCESSING'', ''COMPLETED'', ''CANCELLED'', ''PARTIAL'', ''REFUNDED'']"

definition invalid_status :: response where
  "invalid_status =
     bad_request
       ''Invalid status. Must be one of: PENDING, PROCESSING, COMPLETED, CANCELLED, PARTIAL, REFUNDED''
       ''INVALID_STATUS''"

definition orders_GET :: "store \<Rightarrow> params \<Rightarrow> response" where
  "orders_GET st sp =
     (if given (get sp ''id'') then
        (case parseIntStr (or_default (get sp ''id'') []) of
           None \<Rightarrow> bad_request ''Valid ID is required'' ''INVALID_ID''
         | Some n \<Rightarrow>
             (case filter (\<lambda>order. o_id order = n) (orders st) of
                [] \<Rightarrow> not_found ''Order not found'' ''ORDER_NOT_FOUND''
              | order # _ \<Rightarrow> Response 200 (BOrder order)))
      else
        let limit = Math_min (parseIntStr (or_default (get sp ''limit'') ''10'')) 100;
            offset = parseIntStr (or_default (get sp ''offset'') ''0'');
            userId = get sp ''userId''; serviceId = get sp ''serviceId'';
            status = get sp ''status''; search = get sp ''search''
        in
        if given userId \<and> isNaN (parseIntStr (or_default userId [])) then
          bad_request ''Valid userId is required'' ''INVALID_USER_ID''
        else if given serviceId \<and> isNaN (parseIntStr (or_default serviceId [])) then
          bad_request ''Valid serviceId is required'' ''INVALID_SERVICE_ID''
        else if given status \<and> toUpperCase (or_default status []) \<notin> set VALID_STATUSES then
          invalid_status
        else
          let conditions =
                (if given userId then [\<lambda>order. Some (o_userId order) = parseIntStr (or_default userId [])] else [])
                @ (if given serviceId
                   then [\<lambda>order. Some (o_serviceId order) = parseIntStr (or_default serviceId [])] else [])
                @ (if given status then [\<lambda>order. o_status order = toUpperCase (or_default status [])] else [])
                @ (if given search then [\<lambda>order. contains_like (or_default search []) (o_link order)] else [])
          in
          (case (limit, offset) of
             (Some l, Some off) \<Rightarrow>
               Response 200 (BOrders
                 (sql_limit_offset l off (order_by_desc o_createdAt (where_and conditions (orders st)))))
           | _ \<Rightarrow> server_error))"

text \<open>
  POST stores the \<open>charge\<close> of the body; the service row is looked up only to see that it
  exists. The optional columns are set when the body gives a usable value.
\<close>

definition link_of :: "jsval \<Rightarrow> string option" where
  "link_of link = (case as_string link of Some l \<Rightarrow> if trim l = [] then None else Some l | None \<Rightarrow> None)"

definition positive_int :: "jsval \<Rightarrow> int option" where
  "positive_int v = (case parseInt v of None \<Rightarrow> None | Some q \<Rightarrow> if q \<le> 0 then None else Some q)"

definition positive_float :: "jsval \<Rightarrow> rat option" where
  "positive_float v = (case parseFloat v of None \<Rightarrow> None | Some c \<Rightarrow> if c \<le> 0 then None else Some c)"

text \<open>\<open>status ? status.toUpperCase() : 'PENDING'\<close>; nothing when the call throws.\<close>

definition status_or_pending :: "jsval \<Rightarrow> string option" where
  "status_or_pending status =
     (if truthy status then map_option toUpperCase (as_string status) else Some ''PENDING'')"

definition optional_int :: "jsval \<Rightarrow> int option" where
  "optional_int v = (if nullish v then None else parseInt v)"

definition optional_trimmed :: "jsval \<Rightarrow> string option" where
  "optional_trimmed v = map_option trim (as_string v)"

definition orders_POST :: "store \<Rightarrow> jsobj \<Rightarrow> string \<Rightarrow> response \<times> store" where
  "orders_POST st b now =
     (let userId = field b ''userId''; serviceId = field b ''serviceId''; link = field b ''link'';
          quantity = field b ''quantity''; charge = field b ''charge'';
          startCount = field b ''startCount''; remains = field b ''remains'';
          status = field b ''status''; providerOrderId = field b ''providerOrderId''
      in
      if \<not> truthy userId then (bad_request ''userId is required'' ''MISSING_USER_ID'', st)
      else if \<not> truthy serviceId then (bad_request ''serviceId is required'' ''MISSING_SERVICE_ID'', st)
      else
        (case link_of link of
           None \<Rightarrow> (bad_request ''link is required and must be a non-empty string'' ''MISSING_LINK'', st)
         | Some l \<Rightarrow>
        if nullish quantity then (bad_request ''quantity is required'' ''MISSING_QUANTITY'', st)
        else if nullish charge then (bad_request ''charge is required'' ''MISSING_CHARGE'', st)
        else
        (case parseInt userId of
           None \<Rightarrow> (bad_request ''userId must be a valid integer'' ''INVALID_USER_ID'', st)
         | Some userIdInt \<Rightarrow>
        (case parseInt serviceId of
           None \<Rightarrow> (bad_request ''serviceId must be a valid integer'' ''INVALID_SERVICE_ID'', st)
         | Some serviceIdInt \<Rightarrow>
        (case positive_int quantity of
           None \<Rightarrow> (bad_request ''quantity must be a positive integer'' ''INVALID_QUANTITY'', st)
         | Some quantityInt \<Rightarrow>
        (case positive_float charge of
           None \<Rightarrow> (bad_request ''charge must be a positive number'' ''INVALID_CHARGE'', st)
         | Some chargeFloat \<Rightarrow>
        (case status_or_pending status of
           None \<Rightarrow> (server_error, st)
         | Some orderStatus \<Rightarrow>
        if orderStatus \<notin> set VALID_STATUSES then (invalid_status, st)
        else if filter (\<lambda>u. u_id u = userIdInt) (users st) = [] then
          (bad_request ''User not found'' ''USER_NOT_FOUND'', st)
        else if filter (\<lambda>s. s_id s = serviceIdInt) (services st) = [] then
          (bad_request ''Service not found'' ''SERVICE_NOT_FOUND'', st)
        else
          (let row = \<lparr> o_id = fresh_id (orders_seq st) (map o_id (orders st)),
                       o_userId = userIdInt, o_serviceId = serviceIdInt, o_link = trim l,
                       o_quantity = quantityInt, o_charge = chargeFloat,
                       o_startCount = optional_int startCount, o_remains = optional_int remains,
                       o_status = orderStatus, o_providerOrderId = optional_trimmed providerOrderId,
                       o_createdAt = now, o_updatedAt = now \<rparr>
           in (Response 201 (BOrder row),
               st\<lparr> orders := orders st @ [row], orders_seq := o_id row \<rparr>)))))))))"

text \<open>PUT changes the status and the three optional columns; it accepts every valid status.\<close>

definition put_int ::
  "jsval \<Rightarrow> response \<Rightarrow> (int \<Rightarrow> order \<Rightarrow> order) \<Rightarrow> (order \<Rightarrow> order) \<Rightarrow> response + (order \<Rightarrow> order)" where
  "put_int v bad set_column upd =
     (if nullish v then Inr upd
      else case parseInt v of None \<Rightarrow> Inl bad | Some i \<Rightarrow> Inr (\<lambda>order. set_column i (upd order)))"

definition put_providerOrderId :: "jsval \<Rightarrow> (order \<Rightarrow> order) \<Rightarrow> response + (order \<Rightarrow> order)" where
  "put_providerOrderId v upd =
     (if nullish v then Inr upd
      else case as_string v of
             Some s \<Rightarrow> Inr (\<lambda>order. (upd order)\<lparr> o_providerOrderId := Some (trim s) \<rparr>)
           | None \<Rightarrow> Inl (bad_request ''providerOrderId must be a string'' ''INVALID_PROVIDER_ORDER_ID''))"




section \<open>Sessions: the authenticated-user endpoint and registration\<close>

text \<open>
  \<open>getSession\<close> yields the payload of a verified token or null; the endpoint reads only the
  payload's \<open>id\<close>, so the session is that id when there is one. The query selects the
  columns by name.
\<close>

definition me_row :: "user \<Rightarrow> jsobj" where
  "me_row u =
     [(''id'', JNum (of_int (u_id u))), (''email'', JStr (u_email u)), (''name'', JStr (u_name u)),
      (''role'', JStr (u_role u)), (''balance'', JNum (u_balance u)), (''status'', JStr (u_status u)),
      (''apiKey'', case u_apiKey u of None \<Rightarrow> JNull | Some k \<Rightarrow> JStr k),
      (''createdAt'', JStr (u_createdAt u))]"

definition auth_me_GET :: "store \<Rightarrow> int option \<Rightarrow> response" where
  "auth_me_GET st session =
     (case session of
        None \<Rightarrow> Response 401 (BError ''Not authenticated'' None)
      | Some sid \<Rightarrow>
          (case filter (\<lambda>u. u_id u = sid) (users st) of
             [] \<Rightarrow> Response 404 (BError ''User not found'' None)
           | u # _ \<Rightarrow> Response 200 (BMe (me_row u))))"


section \<open>The client components that drive the routes\<close>

text \<open>
  The dashboard and admin components place an order, refund one and adjust a balance by
  sending several requests one after another. \<open>fetch\<close> resolves for every status, so a
  response is looked at only where the component does so. A number put into a template
  literal prints in decimal; \<open>JSON.stringify\<close> leaves out a property that is
  \<open>undefined\<close> and writes NaN as \<open>null\<close>.
\<close>

definition digit_char :: "nat \<Rightarrow> char" where
  "digit_char d = ''0123456789'' ! (d mod 10)"

function show_nat :: "nat \<Rightarrow> string" where
  "show_nat n = (if n < 10 then [digit_char n] else show_nat (n div 10) @ [digit_char (n mod 10)])"
  by pat_completeness auto
termination
  by (relation "measure id") auto

declare show_nat.simps [simp del]

definition show_int :: "int \<Rightarrow> string" where
  "show_int i = (if i < 0 then CHR ''-'' # show_nat (nat (- i)) else show_nat (nat i))"

definition json_num :: "rat option \<Rightarrow> jsval" where
  "json_num x = (case x of None \<Rightarrow> JNull | Some r \<Rightarrow> JNum r)"

definition json_body :: "(string \<times> jsval) list \<Rightarrow> jsobj" where
  "json_body props = filter (\<lambda>(k, v). v \<noteq> JUndefined) props"

definition ok :: "response \<Rightarrow> bool" where
  "ok r = (200 \<le> status_of r \<and> status_of r \<le> 299)"

datatype notice = ErrorToast string | SuccessToast string

record client_user =
  cu_id :: int
  cu_balance :: rat

text \<open>
  \<open>handleOrderSubmit\<close> of the service browser. \<open>user\<close> and \<open>selectedService\<close> are the
  component's copies; \<open>link\<close> and \<open>quantity\<close> are the form's inputs. A comparison with NaN
  is false, so an input that is no number passes both client checks.
\<close>

definition handleOrderSubmit ::
  "(string \<Rightarrow> string) \<Rightarrow> store \<Rightarrow> client_user option \<Rightarrow> service option \<Rightarrow> string \<Rightarrow> string
     \<Rightarrow> string \<Rightarrow> string \<Rightarrow> string \<Rightarrow> notice option \<times> store" where
  "handleOrderSubmit hash st user selectedService link quantityInput now1 now2 now3 =
     (case (selectedService, user) of
        (Some svc, Some usr) \<Rightarrow>
          (let quantity = parseIntStr quantityInput in
           if (case quantity of None \<Rightarrow> False | Some q \<Rightarrow> q < s_minOrder svc \<or> q > s_maxOrder svc) then
             (Some (ErrorToast (''Quantity must be between '' @ show_int (s_minOrder svc)
                                 @ '' and '' @ show_int (s_maxOrder svc))), st)
           else
             let charge = map_option (\<lambda>q. of_int q / 1000 * s_rate svc) quantity in
             if (case charge of None \<Rightarrow> False | Some c \<Rightarrow> c > cu_balance usr) then
               (Some (ErrorToast ''Insufficient balance. Please add funds to your wallet.''), st)
             else
               let (orderRes, st1) =
                     orders_POST st
                       (json_body [(''userId'', JNum (of_int (cu_id usr))),
                                   (''serviceId'', JNum (of_int (s_id svc))),
                                   (''link'', JStr link),
                                   (''quantity'', json_num (map_option of_int quantity)),
                                   (''charge'', json_num charge),
                                   (''status'', JStr ''PENDING'')]) now1
               in
               (case (ok orderRes, body_of orderRes) of
                  (True, BOrder order) \<Rightarrow>
                    (let newBalance = map_option (\<lambda>c. cu_balance usr - c) charge;
                         (userRes, st2) =
                           users_PUT hash st1 [(''id'', show_int (cu_id usr))]
                             (json_body [(''balance'', json_num newBalance)]) now2;
                         (txRes, st3) =
                           transactions_POST st2
                             (json_body [(''userId'', JNum (of_int (cu_id usr))),
                                         (''type'', JStr ''ORDER''),
                                         (''amount'', json_num (map_option uminus charge)),
                                         (''balanceBefore'', JNum (cu_balance usr)),
                                         (''balanceAfter'', json_num newBalance),
                                         (''description'',
                                            JStr (''Order #'' @ show_int (o_id order) @ '' - '' @ s_name svc)),
                                         (''orderId'', JNum (of_int (o_id order)))]) now3
                     in (Some (SuccessToast ''Order placed successfully!''), st3))
                | _ \<Rightarrow> (Some (ErrorToast ''Failed to place order''), st1))
          )
      | _ \<Rightarrow> (None, st))"




section \<open>Sequences of requests and what a caller can observe\<close>




text \<open>
  The balance of an account is the \<open>balance\<close> column of its row, which the users route
  returns; its ledger is the rows of \<open>transactions\<close> with its \<open>user_id\<close>.
\<close>

definition stored_balance :: "store \<Rightarrow> int \<Rightarrow> rat option" where
  "stored_balance st uid =
     (case filter (\<lambda>u. u_id u = uid) (users st) of [] \<Rightarrow> None | u # _ \<Rightarrow> Some (u_balance u))"

definition ledger :: "store \<Rightarrow> int \<Rightarrow> transaction list" where
  "ledger st uid = filter (\<lambda>t. t_userId t = uid) (transactions st)"

definition ledger_sum :: "store \<Rightarrow> int \<Rightarrow> rat" where
  "ledger_sum st uid = sum_list (map t_amount (ledger st uid))"

definition user_objects :: "response \<Rightarrow> jsobj list" where
  "user_objects r =
     (case body_of r of
        BUser obj \<Rightarrow> [obj]
      | BUsers objs \<Rightarrow> objs
      | BUserDeleted _ obj \<Rightarrow> [obj]
      | BMe obj \<Rightarrow> [obj]
      | _ \<Rightarrow> [])"

text \<open>What every step of PUT keeps: the row's id, and a balance that is not negative.\<close>

definition keeps :: "(user \<Rightarrow> user) \<Rightarrow> bool" where
  "keeps upd = (\<forall>u. u_id (upd u) = u_id u \<and> (0 \<le> u_balance u \<longrightarrow> 0 \<le> u_balance (upd u)))"

text \<open>A response that turns the request down: an error status and no user data.\<close>

definition rejection :: "response \<Rightarrow> bool" where
  "rejection r = (user_objects r = [] \<and> (status_of r = 400 \<or> status_of r = 404 \<or> status_of r = 500))"


definition page_length :: "response \<Rightarrow> nat" where
  "page_length r =
     (case body_of r of
        BUsers objs \<Rightarrow> length objs
      | BOrders rows \<Rightarrow> length rows
      | BTransactions rows \<Rightarrow> length rows
      | _ \<Rightarrow> 0)"

section \<open>Sample data\<close>

text \<open>Concrete stores and requests at which the theorems below are exercised.\<close>

definition store0 :: store where
  "store0 = \<lparr> users = [], services = [], orders = [], transactions = [],
               users_seq = 0, orders_seq = 0, transactions_seq = 0 \<rparr>"

definition zero_amount_body :: jsobj where
  "zero_amount_body = [(''userId'', JNum 1), (''type'', JStr ''DEPOSIT''), (''amount'', JNum 0),
     (''balanceBefore'', JNum 0), (''balanceAfter'', JNum 0), (''description'', JStr ''top up'')]"

definition alice :: user where
  "alice = \<lparr> u_id = 1, u_email = ''alice@example.com'', u_password = ''$2b$10$hashed'',
             u_name = ''Alice'', u_role = ''USER'', u_balance = 100, u_apiKey = None,
             u_status = ''ACTIVE'', u_createdAt = ''2024-01-05T00:00:00.000Z'',
             u_updatedAt = ''2024-01-05T00:00:00.000Z'' \<rparr>"

definition followers :: service where
  "followers = \<lparr> s_id = 1, s_name = ''Instagram Followers'', s_rate = 5 / 2,
                 s_minOrder = 100, s_maxOrder = 100000, s_status = ''ACTIVE'' \<rparr>"

definition store1 :: store where
  "store1 = \<lparr> users = [alice], services = [followers], orders = [], transactions = [],
               users_seq = 1, orders_seq = 0, transactions_seq = 0 \<rparr>"

definition deposit :: "int \<Rightarrow> string \<Rightarrow> transaction" where
  "deposit i created = \<lparr> t_id = i, t_userId = 1, t_type = ''DEPOSIT'', t_amount = 1,
                    t_balanceBefore = 0, t_balanceAfter = 1, t_description = ''top up'',
                    t_orderId = None, t_createdAt = created \<rparr>"

definition busy_store :: store where
  "busy_store = store1\<lparr> transactions := map (\<lambda>i. deposit (int i) ''2024-02-01T00:00:00.000Z'') [1..<102],
                         transactions_seq := 101 \<rparr>"

definition entry :: "int \<Rightarrow> string \<Rightarrow> rat \<Rightarrow> int option \<Rightarrow> string \<Rightarrow> transaction" where
  "entry i kind amount order_id created =
     \<lparr> t_id = i, t_userId = 1, t_type = kind, t_amount = amount, t_balanceBefore = 0,
        t_balanceAfter = 0, t_description = ''entry'', t_orderId = order_id, t_createdAt = created \<rparr>"

definition ledger_store :: store where
  "ledger_store = store1\<lparr> transactions :=
      [entry 1 ''ORDER'' (-2) (Some 7) ''2024-03-01T09:00:00.000Z'',
       entry 2 ''DEPOSIT'' 5 None ''2024-03-02T09:00:00.000Z'',
       entry 3 ''ORDER'' (-1) (Some 7) ''2024-03-03T09:00:00.000Z'',
       entry 4 ''REFUND'' 2 (Some 7) ''2024-03-04T09:00:00.000Z''],
      transactions_seq := 4 \<rparr>"

definition order_entries_query :: params where
  "order_entries_query = [(''userId'', ''1''), (''type'', ''ORDER''), (''orderId'', ''7'')]"














section \<open>Properties of the handlers\<close>

subsection \<open>Responses\<close>

lemma rejection_simps [simp]:
  "rejection (bad_request m c)" "rejection (not_found m c)" "rejection server_error"
  "rejection invalid_role" "rejection invalid_user_status" "rejection invalid_balance"
  "rejection invalid_status"
  by (simp_all add: rejection_def invalid_role_def invalid_user_status_def invalid_balance_def
        invalid_status_def bad_request_def not_found_def server_error_def user_objects_def)

lemma rejection_not_created [simp]: "\<not> rejection (Response 201 b)" "\<not> rejection (Response 200 b)"
  by (simp_all add: rejection_def)

lemma rejection_not_ok: "rejection r \<Longrightarrow> \<not> ok r"
  by (auto simp: rejection_def ok_def)

lemma user_objects_simps [simp]:
  "user_objects (Response c (BUser obj)) = [obj]"
  "user_objects (Response c (BUsers objs)) = objs"
  "user_objects (Response c (BUserDeleted m obj)) = [obj]"
  "user_objects (Response c (BMe obj)) = [obj]"
  "user_objects (Response c (BError m k)) = []"
  by (simp_all add: user_objects_def)

lemma rejection_objects: "rejection r \<Longrightarrow> user_objects r = []"
  by (simp add: rejection_def)

subsection \<open>Values\<close>

lemma field_json_body:
  "distinct (map fst props) \<Longrightarrow>
     field (json_body props) k = (case map_of props k of None \<Rightarrow> JUndefined | Some v \<Rightarrow> v)"
proof (induction props)
  case Nil
  then show ?case by (simp add: json_body_def field_def)
next
  case (Cons p props)
  obtain k' v where p: "p = (k', v)" by (cases p)
  from Cons have ih: "field (json_body props) k = (case map_of props k of None \<Rightarrow> JUndefined | Some v \<Rightarrow> v)"
    by simp
  show ?case
  proof (cases "k' = k")
    case False
    with ih p show ?thesis by (simp add: json_body_def field_def)
  next
    case True
    with Cons.prems p have "k \<notin> fst ` set props" by simp
    then have "map_of props k = None" by (simp add: map_of_eq_None_iff)
    with ih have "field (json_body props) k = JUndefined" by simp
    with True p show ?thesis by (simp add: json_body_def field_def)
  qed
qed

lemma trunc_of_int [simp]: "trunc (of_int i) = i"
  by (simp add: trunc_def)

lemma parseInt_of_int [simp]: "parseInt (JNum (of_int i)) = Some i"
  by simp

lemma truthy_of_int [simp]: "truthy (JNum (of_int i)) \<longleftrightarrow> i \<noteq> 0"
  by simp

lemma nullish_simps [simp]:
  "nullish JUndefined" "nullish JNull" "\<not> nullish (JNum x)" "\<not> nullish (JStr s)" "\<not> nullish (JBool f)"
  by (simp_all add: nullish_def)

lemma json_num_simps [simp]: "json_num None = JNull" "json_num (Some x) = JNum x"
  by (simp_all add: json_num_def)

lemma isNaN_simps [simp]: "isNaN None" "\<not> isNaN (Some x)"
  by (simp_all add: isNaN_def)

lemma trim_plain: "s \<noteq> [] \<Longrightarrow> \<not> is_ws (hd s) \<Longrightarrow> \<not> is_ws (last s) \<Longrightarrow> trim s = s"
proof -
  assume a: "s \<noteq> []" "\<not> is_ws (hd s)" "\<not> is_ws (last s)"
  then have 1: "dropWhile is_ws s = s" by (cases s) auto
  from a have "dropWhile is_ws (rev s) = rev s"
    by (cases "rev s") (auto simp: hd_rev)
  with 1 show ?thesis by (simp add: trim_def)
qed

lemma trim_nonempty: "s \<noteq> [] \<Longrightarrow> \<not> is_ws (hd s) \<Longrightarrow> trim s \<noteq> []"
proof -
  assume a: "s \<noteq> []" "\<not> is_ws (hd s)"
  then obtain c cs where s: "s = c # cs" by (cases s) auto
  with a have "\<not> is_ws c" by simp
  then have "dropWhile is_ws (rev cs @ [c]) \<noteq> []"
    by (simp add: dropWhile_append)
  with s a show ?thesis by (simp add: trim_def)
qed

lemma status_simps [simp]:
  "status_of (bad_request m c) = 400" "status_of (not_found m c) = 404" "status_of server_error = 500"
  by (simp_all add: bad_request_def not_found_def server_error_def)

lemma as_string_Some [simp]: "as_string v = Some s \<longleftrightarrow> v = JStr s"
  by (cases v) (simp_all add: as_string_def)

lemma as_string_JStr [simp]: "as_string (JStr s) = Some s"
  by (simp add: as_string_def)

lemma trim_valid_type: "ty \<in> set VALID_TRANSACTION_TYPES \<Longrightarrow> trim ty = ty"
  by (auto simp: VALID_TRANSACTION_TYPES_def trim_def is_ws_def)

subsection \<open>The transactions route\<close>

lemma transactions_POST_result:
  assumes "transactions_POST st b now = (r, st')"
  shows "(st' = st \<and> (status_of r = 400 \<or> status_of r = 500)) \<or>
         (\<exists>row. r = Response 201 (BTransaction row)
            \<and> st' = st\<lparr> transactions := transactions st @ [row], transactions_seq := t_id row \<rparr>
            \<and> parseFloat (field b ''amount'') = Some (t_amount row)
            \<and> field b ''amount'' \<noteq> JNum 0
            \<and> parseFloat (field b ''balanceBefore'') = Some (t_balanceBefore row)
            \<and> parseFloat (field b ''balanceAfter'') = Some (t_balanceAfter row)
            \<and> parseInt (field b ''userId'') = Some (t_userId row)
            \<and> field b ''type'' = JStr (t_type row)
            \<and> t_createdAt row = now
            \<and> t_id row = fresh_id (transactions_seq st) (map t_id (transactions st)))"
  using assms
  unfolding transactions_POST_def Let_def
  by (auto split: if_splits option.splits simp: trim_valid_type)


lemma transactions_POST_accepts:
  assumes "parseInt (field b ''userId'') = Some uid" "truthy (field b ''userId'')"
    and "field b ''type'' = JStr ty" "ty \<in> set VALID_TRANSACTION_TYPES"
    and "field b ''amount'' = JNum a" "a \<noteq> 0"
    and "field b ''balanceBefore'' = JNum bb" "field b ''balanceAfter'' = JNum ba"
    and "field b ''description'' = JStr d" "d \<noteq> []"
    and "field b ''orderId'' = JNum (of_int oid)"
  shows "transactions_POST st b now =
           (Response 201 (BTransaction
              \<lparr> t_id = fresh_id (transactions_seq st) (map t_id (transactions st)),
                 t_userId = uid, t_type = ty, t_amount = a, t_balanceBefore = bb,
                 t_balanceAfter = ba, t_description = trim d, t_orderId = Some oid,
                 t_createdAt = now \<rparr>),
            st\<lparr> transactions := transactions st @
                    [\<lparr> t_id = fresh_id (transactions_seq st) (map t_id (transactions st)),
                       t_userId = uid, t_type = ty, t_amount = a, t_balanceBefore = bb,
                       t_balanceAfter = ba, t_description = trim d, t_orderId = Some oid,
                       t_createdAt = now \<rparr>],
                  transactions_seq := fresh_id (transactions_seq st) (map t_id (transactions st)) \<rparr>)"
proof -
  have ty: "ty \<noteq> []" "trim ty = ty"
    using assms(4) by (auto simp: VALID_TRANSACTION_TYPES_def trim_valid_type)
  show ?thesis
    unfolding transactions_POST_def Let_def
    using assms ty by simp
qed



subsection \<open>The users route\<close>

lemma check_enum_rejection: "check_enum v valid bad = Some r \<Longrightarrow> rejection bad \<Longrightarrow> rejection r"
  by (auto simp: check_enum_def split: option.splits if_splits)

lemma post_role_rejection: "post_role v = Some r \<Longrightarrow> rejection r"
  by (auto simp: post_role_def split: if_splits dest: check_enum_rejection)

lemma post_status_rejection: "post_status v = Some r \<Longrightarrow> rejection r"
  by (auto simp: post_status_def split: if_splits dest: check_enum_rejection)

lemma check_balance_Some: "check_balance v = Some r \<Longrightarrow> r = invalid_balance"
  by (auto simp: check_balance_def split: option.splits if_splits)

lemma check_balance_None: "check_balance v = None \<Longrightarrow> \<exists>x. parseFloat v = Some x \<and> 0 \<le> x"
  by (auto simp: check_balance_def split: option.splits if_splits)

lemma post_balance_rejection: "post_balance v = Some r \<Longrightarrow> rejection r"
  by (auto simp: post_balance_def split: if_splits dest: check_balance_Some)

lemma post_balance_None: "post_balance v = None \<Longrightarrow> 0 \<le> balance_or_zero v"
  by (auto simp: post_balance_def balance_or_zero_def split: if_splits option.splits
           dest: check_balance_None)

lemma users_POST_result:
  assumes "users_POST hash st b now = (r, st')"
  shows "(st' = st \<and> rejection r) \<or>
         (\<exists>row. r = Response 201 (BUser (excludePassword (user_row row)))
            \<and> st' = st\<lparr> users := users st @ [row], users_seq := u_id row \<rparr>
            \<and> 0 \<le> u_balance row)"
  using assms unfolding users_POST_def Let_def
  by (auto split: option.splits if_splits simp: post_balance_None
        dest: post_role_rejection post_status_rejection post_balance_rejection)

lemma put_name_step: "put_name v upd = Inr upd' \<Longrightarrow> keeps upd \<Longrightarrow> keeps upd'"
  and put_name_rejection: "put_name v upd = Inl r \<Longrightarrow> rejection r"
  by (auto simp: put_name_def keeps_def split: jsval.splits if_splits)

lemma put_email_step: "put_email st n v upd = Inr upd' \<Longrightarrow> keeps upd \<Longrightarrow> keeps upd'"
  and put_email_rejection: "put_email st n v upd = Inl r \<Longrightarrow> rejection r"
  by (auto simp: put_email_def keeps_def split: jsval.splits if_splits list.splits)

lemma put_password_step: "put_password hash v upd = Inr upd' \<Longrightarrow> keeps upd \<Longrightarrow> keeps upd'"
  and put_password_rejection: "put_password hash v upd = Inl r \<Longrightarrow> rejection r"
  by (auto simp: put_password_def keeps_def split: jsval.splits if_splits)

lemma put_role_step: "put_role v upd = Inr upd' \<Longrightarrow> keeps upd \<Longrightarrow> keeps upd'"
  and put_role_rejection: "put_role v upd = Inl r \<Longrightarrow> rejection r"
  by (auto simp: put_role_def keeps_def split: option.splits if_splits dest: check_enum_rejection)

lemma put_status_step: "put_status v upd = Inr upd' \<Longrightarrow> keeps upd \<Longrightarrow> keeps upd'"
  and put_status_rejection: "put_status v upd = Inl r \<Longrightarrow> rejection r"
  by (auto simp: put_status_def keeps_def split: option.splits if_splits dest: check_enum_rejection)

lemma put_balance_step: "put_balance v upd = Inr upd' \<Longrightarrow> keeps upd \<Longrightarrow> keeps upd'"
  and put_balance_rejection: "put_balance v upd = Inl r \<Longrightarrow> rejection r"
  by (auto simp: put_balance_def keeps_def split: option.splits if_splits)

lemma put_apiKey_step: "put_apiKey v upd = Inr upd' \<Longrightarrow> keeps upd \<Longrightarrow> keeps upd'"
  and put_apiKey_rejection: "put_apiKey v upd = Inl r \<Longrightarrow> rejection r"
  by (auto simp: put_apiKey_def keeps_def split: option.splits if_splits)

lemma and_then_Inr: "and_then a f = Inr upd' \<Longrightarrow> \<exists>upd. a = Inr upd \<and> f upd = Inr upd'"
  by (cases a) (simp_all add: and_then_def)

lemma and_then_Inl: "and_then a f = Inl r \<Longrightarrow> a = Inl r \<or> (\<exists>upd. a = Inr upd \<and> f upd = Inl r)"
  by (cases a) (simp_all add: and_then_def)

lemma put_chain_keeps:
  assumes "and_then (and_then (and_then (and_then (and_then (and_then
             (put_name v1 (\<lambda>u. u\<lparr> u_updatedAt := now \<rparr>))
             (put_email st n v2)) (put_password hash v3)) (put_role v4)) (put_status v5))
             (put_balance v6)) (put_apiKey v7) = Inr upd"
  shows "keeps upd"
proof -
  have k0: "keeps (\<lambda>u. u\<lparr> u_updatedAt := now \<rparr>)" by (simp add: keeps_def)
  from assms obtain u6 where a6: "and_then (and_then (and_then (and_then (and_then
             (put_name v1 (\<lambda>u. u\<lparr> u_updatedAt := now \<rparr>))
             (put_email st n v2)) (put_password hash v3)) (put_role v4)) (put_status v5))
             (put_balance v6) = Inr u6" and s7: "put_apiKey v7 u6 = Inr upd"
    by (blast dest: and_then_Inr)
  from a6 obtain u5 where a5: "and_then (and_then (and_then (and_then
             (put_name v1 (\<lambda>u. u\<lparr> u_updatedAt := now \<rparr>))
             (put_email st n v2)) (put_password hash v3)) (put_role v4)) (put_status v5) = Inr u5"
      and s6: "put_balance v6 u5 = Inr u6"
    by (blast dest: and_then_Inr)
  from a5 obtain u4 where a4: "and_then (and_then (and_then
             (put_name v1 (\<lambda>u. u\<lparr> u_updatedAt := now \<rparr>))
             (put_email st n v2)) (put_password hash v3)) (put_role v4) = Inr u4"
      and s5: "put_status v5 u4 = Inr u5"
    by (blast dest: and_then_Inr)
  from a4 obtain u3 where a3: "and_then (and_then
             (put_name v1 (\<lambda>u. u\<lparr> u_updatedAt := now \<rparr>))
             (put_email st n v2)) (put_password hash v3) = Inr u3"
      and s4: "put_role v4 u3 = Inr u4"
    by (blast dest: and_then_Inr)
  from a3 obtain u2 where a2: "and_then (put_name v1 (\<lambda>u. u\<lparr> u_updatedAt := now \<rparr>))
             (put_email st n v2) = Inr u2"
      and s3: "put_password hash v3 u2 = Inr u3"
    by (blast dest: and_then_Inr)
  from a2 obtain u1 where a1: "put_name v1 (\<lambda>u. u\<lparr> u_updatedAt := now \<rparr>) = Inr u1"
      and s2: "put_email st n v2 u1 = Inr u2"
    by (blast dest: and_then_Inr)
  from put_name_step [OF a1 k0] have "keeps u1" .
  from put_email_step [OF s2 this] have "keeps u2" .
  from put_password_step [OF s3 this] have "keeps u3" .
  from put_role_step [OF s4 this] have "keeps u4" .
  from put_status_step [OF s5 this] have "keeps u5" .
  from put_balance_step [OF s6 this] have "keeps u6" .
  from put_apiKey_step [OF s7 this] show ?thesis .
qed

lemma put_chain_rejection:
  assumes "and_then (and_then (and_then (and_then (and_then (and_then
             (put_name v1 upd0)
             (put_email st n v2)) (put_password hash v3)) (put_role v4)) (put_status v5))
             (put_balance v6)) (put_apiKey v7) = Inl r"
  shows "rejection r"
  using assms
  by (blast dest: and_then_Inl put_name_rejection put_email_rejection put_password_rejection
        put_role_rejection put_status_rejection put_balance_rejection put_apiKey_rejection)

lemma users_PUT_result:
  assumes "users_PUT hash st sp b now = (r, st')"
  shows "(st' = st \<and> rejection r) \<or>
         (\<exists>n upd existing.
            r = Response 200 (BUser (excludePassword (user_row (upd existing))))
            \<and> st' = st\<lparr> users := map (\<lambda>u. if u_id u = n then upd u else u) (users st) \<rparr>
            \<and> keeps upd)"
  using assms unfolding users_PUT_def
  by (auto split: option.splits list.splits sum.splits
        dest: put_chain_rejection put_chain_keeps)

lemma users_DELETE_result:
  assumes "users_DELETE st sp = (r, st')"
  shows "(st' = st \<and> rejection r) \<or>
         (\<exists>n u. r = Response 200 (BUserDeleted ''User deleted successfully'' (excludePassword (user_row u)))
            \<and> st' = st\<lparr> users := filter (\<lambda>u. u_id u \<noteq> n) (users st) \<rparr>)"
  using assms unfolding users_DELETE_def
  by (auto split: option.splits list.splits)


subsection \<open>Printing and parsing an id\<close>

lemma digit_cases: "d < 10 \<Longrightarrow> d \<in> {0, 1, 2, 3, 4, 5, 6, 7, 8, 9::nat}"
  by auto

lemma digit_char_val: "d < 10 \<Longrightarrow> digit_val (digit_char d) = Some d"
  by (drule digit_cases) (auto simp: digit_val_def digit_char_def)

lemma digit_char_is_digit: "d < 10 \<Longrightarrow> is_digit 10 (digit_char d)"
  by (simp add: is_digit_def digit_char_val)

lemma digit_char_plain:
  "d < 10 \<Longrightarrow> \<not> is_ws (digit_char d) \<and> digit_char d \<noteq> CHR ''-'' \<and> digit_char d \<noteq> CHR ''+''
     \<and> digit_char d \<noteq> CHR ''x'' \<and> digit_char d \<noteq> CHR ''X''"
  by (drule digit_cases) (auto simp: is_ws_def digit_char_def)

lemma show_nat_digits: "list_all (is_digit 10) (show_nat n)"
proof (induction n rule: show_nat.induct)
  case (1 n)
  show ?case
  proof (cases "n < 10")
    case True
    then show ?thesis by (subst show_nat.simps) (simp add: digit_char_is_digit)
  next
    case False
    with 1 show ?thesis by (subst show_nat.simps) (simp add: digit_char_is_digit)
  qed
qed

lemma show_nat_plain:
  "list_all (\<lambda>c. \<not> is_ws c \<and> c \<noteq> CHR ''-'' \<and> c \<noteq> CHR ''+'' \<and> c \<noteq> CHR ''x'' \<and> c \<noteq> CHR ''X'') (show_nat n)"
proof (induction n rule: show_nat.induct)
  case (1 n)
  show ?case
  proof (cases "n < 10")
    case True
    then show ?thesis by (subst show_nat.simps) (simp add: digit_char_plain)
  next
    case False
    with 1 show ?thesis by (subst show_nat.simps) (simp add: digit_char_plain)
  qed
qed

lemma show_nat_nonempty: "show_nat n \<noteq> []"
  by (subst show_nat.simps) simp

lemma digits_val_snoc:
  "digits_val r (ds @ [c]) = digits_val r ds * r + (case digit_val c of None \<Rightarrow> 0 | Some d \<Rightarrow> d)"
  by (simp add: digits_val_def)

lemma digits_val_show_nat: "digits_val 10 (show_nat n) = n"
proof (induction n rule: show_nat.induct)
  case (1 n)
  show ?case
  proof (cases "n < 10")
    case True
    then show ?thesis
      by (subst show_nat.simps) (simp add: digits_val_def digit_char_val)
  next
    case False
    with 1 have "digits_val 10 (show_nat (n div 10)) = n div 10" by simp
    with False show ?thesis
      by (subst show_nat.simps) (simp add: digits_val_snoc digit_char_val)
  qed
qed

lemma takeWhile_all: "list_all P xs \<Longrightarrow> takeWhile P xs = xs"
  by (induction xs) auto

lemma parseIntStr_show_nat: "parseIntStr (show_nat n) = Some (int n)"
proof -
  obtain c cs where s: "show_nat n = c # cs"
    using show_nat_nonempty by (cases "show_nat n") auto
  have plain: "list_all (\<lambda>c. \<not> is_ws c \<and> c \<noteq> CHR ''-'' \<and> c \<noteq> CHR ''+'' \<and> c \<noteq> CHR ''x'' \<and> c \<noteq> CHR ''X'') (c # cs)"
    using show_nat_plain [of n] s by simp
  have dw: "dropWhile is_ws (show_nat n) = show_nat n"
    using plain s by simp
  have sg: "split_sign (show_nat n) = (False, show_nat n)"
    using plain s by (simp add: split_sign_def)
  have rx: "split_radix (show_nat n) = (10, show_nat n)"
    using plain s by (cases cs) (simp_all add: split_radix_def)
  have tw: "takeWhile (is_digit 10) (show_nat n) = show_nat n"
    by (rule takeWhile_all) (rule show_nat_digits)
  show ?thesis
    by (simp add: parseIntStr_def dw sg rx tw show_nat_nonempty digits_val_show_nat)
qed

lemma parseIntStr_show_int: "parseIntStr (show_int i) = Some i"
proof (cases "i < 0")
  case False
  then show ?thesis by (simp add: show_int_def parseIntStr_show_nat)
next
  case True
  obtain c cs where s: "show_nat (nat (- i)) = c # cs"
    using show_nat_nonempty by (cases "show_nat (nat (- i))") auto
  have plain: "list_all (\<lambda>c. \<not> is_ws c \<and> c \<noteq> CHR ''-'' \<and> c \<noteq> CHR ''+'' \<and> c \<noteq> CHR ''x'' \<and> c \<noteq> CHR ''X'') (c # cs)"
    using show_nat_plain [of "nat (- i)"] s by simp
  have ws: "\<not> is_ws (CHR ''-'')" by (simp add: is_ws_def)
  have rx: "split_radix (show_nat (nat (- i))) = (10, show_nat (nat (- i)))"
    using plain s by (cases cs) (simp_all add: split_radix_def)
  have tw: "takeWhile (is_digit 10) (show_nat (nat (- i))) = show_nat (nat (- i))"
    by (rule takeWhile_all) (rule show_nat_digits)
  show ?thesis
    using True
    by (simp add: show_int_def parseIntStr_def ws split_sign_def rx tw show_nat_nonempty digits_val_show_nat)
qed

lemma show_int_nonempty: "show_int i \<noteq> []"
  by (simp add: show_int_def show_nat_nonempty)

lemma id_param_show_int: "id_param (Some (show_int i)) = Some i"
  by (simp add: id_param_def given_def or_default_def show_int_nonempty parseIntStr_show_int)

lemma get_id [simp]: "get [(''id'', v)] ''id'' = Some v"
  by (simp add: get_def)

subsection \<open>The orders route\<close>

lemma orders_POST_result:
  assumes "orders_POST st b now = (r, st')"
  shows "(st' = st \<and> rejection r) \<or>
         (\<exists>row. r = Response 201 (BOrder row)
            \<and> st' = st\<lparr> orders := orders st @ [row], orders_seq := o_id row \<rparr>
            \<and> positive_int (field b ''quantity'') = Some (o_quantity row)
            \<and> positive_float (field b ''charge'') = Some (o_charge row)
            \<and> o_id row = fresh_id (orders_seq st) (map o_id (orders st)))"
  using assms unfolding orders_POST_def Let_def
  by (auto split: option.splits if_splits)


lemma toUpperCase_PENDING: "toUpperCase ''PENDING'' = ''PENDING''"
  by code_simp


lemma orders_POST_accepts:
  assumes "field b ''userId'' = JNum (of_int uid)" "uid \<noteq> 0"
    and "field b ''serviceId'' = JNum (of_int sid)" "sid \<noteq> 0"
    and "link_of (field b ''link'') = Some l"
    and "field b ''quantity'' = JNum (of_int q)" "0 < q"
    and "field b ''charge'' = JNum c" "0 < c"
    and "field b ''status'' = JStr ''PENDING''"
    and "field b ''startCount'' = JUndefined" "field b ''remains'' = JUndefined"
    and "field b ''providerOrderId'' = JUndefined"
    and "filter (\<lambda>u. u_id u = uid) (users st) \<noteq> []"
    and "filter (\<lambda>s. s_id s = sid) (services st) \<noteq> []"
  shows "orders_POST st b now =
           (Response 201 (BOrder
              \<lparr> o_id = fresh_id (orders_seq st) (map o_id (orders st)), o_userId = uid,
                 o_serviceId = sid, o_link = trim l, o_quantity = q, o_charge = c,
                 o_startCount = None, o_remains = None, o_status = ''PENDING'',
                 o_providerOrderId = None, o_createdAt = now, o_updatedAt = now \<rparr>),
            st\<lparr> orders := orders st @
                    [\<lparr> o_id = fresh_id (orders_seq st) (map o_id (orders st)), o_userId = uid,
                       o_serviceId = sid, o_link = trim l, o_quantity = q, o_charge = c,
                       o_startCount = None, o_remains = None, o_status = ''PENDING'',
                       o_providerOrderId = None, o_createdAt = now, o_updatedAt = now \<rparr>],
                  orders_seq := fresh_id (orders_seq st) (map o_id (orders st)) \<rparr>)"
proof -
  have valid: "''PENDING'' \<in> set VALID_STATUSES" by (simp add: VALID_STATUSES_def)
  have sp: "status_or_pending (JStr ''PENDING'') = Some ''PENDING''"
    by (simp add: status_or_pending_def toUpperCase_PENDING)
  have pq: "positive_int (JNum (of_int q)) = Some q" using assms(7) by (simp add: positive_int_def)
  have pc: "positive_float (JNum c) = Some c" using assms(9) by (simp add: positive_float_def)
  show ?thesis
    unfolding orders_POST_def Let_def
    using assms valid sp pq pc
    by (simp add: optional_int_def optional_trimmed_def as_string_def)
qed

lemma put_int_rejection: "put_int v bad f upd = Inl r \<Longrightarrow> r = bad"
  by (auto simp: put_int_def split: if_splits option.splits)

lemma put_providerOrderId_rejection: "put_providerOrderId v upd = Inl r \<Longrightarrow> rejection r"
  by (auto simp: put_providerOrderId_def split: if_splits option.splits)




subsection \<open>Balance-only PUT and the single-user GET\<close>

lemma users_PUT_balance_ok:
  assumes "filter (\<lambda>u. u_id u = n) (users st) = existing # rest" "0 \<le> y"
  shows "users_PUT hash st [(''id'', show_int n)] (json_body [(''balance'', JNum y)]) now =
           (Response 200 (BUser (excludePassword
              (user_row (existing\<lparr> u_updatedAt := now, u_balance := y \<rparr>)))),
            st\<lparr> users := map (\<lambda>u. if u_id u = n then u\<lparr> u_updatedAt := now, u_balance := y \<rparr>
                                    else u) (users st) \<rparr>)"
  unfolding users_PUT_def
  using assms
  by (simp add: id_param_show_int field_json_body put_name_def put_email_def put_password_def
        put_role_def put_status_def put_balance_def put_apiKey_def and_then_def)

lemma users_PUT_balance_negative:
  assumes "y < 0"
  shows "snd (users_PUT hash st [(''id'', show_int n)] (json_body [(''balance'', JNum y)]) now) = st"
    and "rejection (fst (users_PUT hash st [(''id'', show_int n)] (json_body [(''balance'', JNum y)]) now))"
  unfolding users_PUT_def
  using assms
  by (simp_all add: id_param_show_int field_json_body put_name_def put_email_def put_password_def
        put_role_def put_status_def put_balance_def put_apiKey_def and_then_def
      split: list.split)



lemma users_GET_one:
  "users_GET st [(''id'', show_int n)] =
     (case filter (\<lambda>u. u_id u = n) (users st) of
        [] \<Rightarrow> not_found ''User not found'' ''USER_NOT_FOUND''
      | u # _ \<Rightarrow> Response 200 (BUser (excludePassword (user_row u))))"
  unfolding users_GET_def
  by (simp add: given_def or_default_def show_int_nonempty parseIntStr_show_int)


subsection \<open>No password in a user object\<close>

lemma excludePassword_no_password [simp]: "map_of (excludePassword obj) ''password'' = None"
  by (induction obj) (auto simp: excludePassword_def)

lemma me_row_no_password [simp]: "map_of (me_row u) ''password'' = None"
  by (simp add: me_row_def)

lemma users_GET_no_password:
  "list_all (\<lambda>obj. map_of obj ''password'' = None) (user_objects (users_GET st sp))"
  unfolding users_GET_def Let_def
  by (simp add: list_all_iff rejection_objects invalid_role_def invalid_user_status_def
      split: option.split list.split)

lemma users_POST_no_password:
  "list_all (\<lambda>obj. map_of obj ''password'' = None) (user_objects (fst (users_POST hash st b now)))"
  using users_POST_result [of hash st b now "fst (users_POST hash st b now)" "snd (users_POST hash st b now)"]
  by (auto simp: rejection_objects)

lemma users_PUT_no_password:
  "list_all (\<lambda>obj. map_of obj ''password'' = None) (user_objects (fst (users_PUT hash st sp b now)))"
  using users_PUT_result [of hash st sp b now "fst (users_PUT hash st sp b now)" "snd (users_PUT hash st sp b now)"]
  by (auto simp: rejection_objects)

lemma users_DELETE_no_password:
  "list_all (\<lambda>obj. map_of obj ''password'' = None) (user_objects (fst (users_DELETE st sp)))"
  using users_DELETE_result [of st sp "fst (users_DELETE st sp)" "snd (users_DELETE st sp)"]
  by (auto simp: rejection_objects)

lemma auth_me_GET_no_password:
  "list_all (\<lambda>obj. map_of obj ''password'' = None) (user_objects (auth_me_GET st session))"
  by (simp add: auth_me_GET_def split: option.split list.split)

lemma alice_fields: "u_id alice = 1" "u_balance alice = 100"
  by (simp_all add: alice_def)

lemma show_int_1: "show_int 1 = ''1''"
  by code_simp

subsection \<open>The query layer\<close>

lemma order_by_desc_sorted: "sorted_wrt (\<lambda>x y. k x \<ge> k y) (order_by_desc k rows)"
proof -
  have "sorted (map k (sort_key k rows))" by (rule sorted_sort_key)
  then have "sorted_wrt (\<lambda>x y. k x \<le> k y) (sort_key k rows)"
    by (simp add: sorted_wrt_map)
  then show ?thesis
    by (simp add: order_by_desc_def sorted_wrt_rev)
qed

lemma set_order_by_desc [simp]: "set (order_by_desc k rows) = set rows"
  by (simp add: order_by_desc_def)

lemma length_order_by_desc [simp]: "length (order_by_desc k rows) = length rows"
  by (simp add: order_by_desc_def)

lemma sql_limit_offset_sorted:
  "sorted_wrt P rows \<Longrightarrow> sorted_wrt P (sql_limit_offset l off rows)"
  by (simp add: sql_limit_offset_def Let_def sorted_wrt_drop sorted_wrt_take)

lemma set_sql_limit_offset: "set (sql_limit_offset l off rows) \<subseteq> set rows"
proof -
  have "set (take (nat l) (drop (nat off) rows)) \<subseteq> set (drop (nat off) rows)"
    by (rule set_take_subset)
  moreover have "set (drop (nat off) rows) \<subseteq> set rows"
    by (rule set_drop_subset)
  ultimately show ?thesis
    by (auto simp: sql_limit_offset_def Let_def)
qed

lemma length_sql_limit_offset: "0 \<le> l \<Longrightarrow> length (sql_limit_offset l off rows) \<le> nat l"
  by (simp add: sql_limit_offset_def Let_def)

lemma sql_limit_offset_unbounded: "l < 0 \<Longrightarrow> sql_limit_offset l 0 rows = rows"
  by (simp add: sql_limit_offset_def)

lemma where_and_holds: "r \<in> set (where_and conditions rows) \<Longrightarrow> c \<in> set conditions \<Longrightarrow> c r"
  by (auto simp: where_and_def list_all_iff)

lemma set_where_and: "set (where_and conditions rows) \<subseteq> set rows"
  by (auto simp: where_and_def)

lemma where_and_Nil [simp]: "where_and [] rows = rows"
  by (simp add: where_and_def)

lemma transactions_GET_page:
  assumes "transactions_GET st sp = Response 200 (BTransactions rows)"
  shows "\<exists>l off. rows = sql_limit_offset l off (order_by_desc t_createdAt (where_and
           ((if given (get sp ''userId'')
             then [\<lambda>t. Some (t_userId t) = parseIntStr (or_default (get sp ''userId'') [])] else [])
            @ (if given (get sp ''type'') then [\<lambda>t. t_type t = or_default (get sp ''type'') []] else [])
            @ (if given (get sp ''orderId'')
               then [\<lambda>t. t_orderId t \<noteq> None \<and> t_orderId t = parseIntStr (or_default (get sp ''orderId'') [])]
               else []))
           (transactions st)))"
  using assms unfolding transactions_GET_def Let_def
  by (auto simp: bad_request_def not_found_def server_error_def
      split: if_splits option.splits list.splits)

lemma order_entries_page: "transactions_GET ledger_store order_entries_query =
    Response 200 (BTransactions [entry 3 ''ORDER'' (-1) (Some 7) ''2024-03-03T09:00:00.000Z'',
                                 entry 1 ''ORDER'' (-2) (Some 7) ''2024-03-01T09:00:00.000Z''])"
  by code_simp


subsection \<open>Page size\<close>

lemma parse_defaults: "parseIntStr ''10'' = Some 10" "parseIntStr ''0'' = Some 0" "parseIntStr ''-1'' = Some (- 1)"
  by code_simp+

lemma page_length_simps [simp]:
  "page_length (bad_request m c) = 0" "page_length (not_found m c) = 0" "page_length server_error = 0"
  "page_length invalid_role = 0" "page_length invalid_user_status = 0" "page_length invalid_status = 0"
  "page_length (Response k (BTransaction t)) = 0" "page_length (Response k (BOrder order)) = 0"
  "page_length (Response k (BUser obj)) = 0"
  "page_length (Response k (BTransactions ts)) = length ts"
  "page_length (Response k (BOrders os)) = length os"
  "page_length (Response k (BUsers objs)) = length objs"
  by (simp_all add: page_length_def bad_request_def not_found_def server_error_def
        invalid_role_def invalid_user_status_def invalid_status_def)

lemma page_size_capped:
  assumes "parseIntStr (or_default (get sp ''limit'') ''10'') = Some n" "0 \<le> n"
  shows "page_length (transactions_GET st sp) \<le> nat (min n 100)"
    and "page_length (orders_GET st sp) \<le> nat (min n 100)"
    and "page_length (users_GET st sp) \<le> nat (min n 100)"
  using assms
  unfolding transactions_GET_def orders_GET_def users_GET_def Let_def
  by (simp_all add: Math_min_def length_sql_limit_offset split: option.split list.split)

lemma default_page_size:
  assumes "get sp ''limit'' = None"
  shows "page_length (transactions_GET st sp) \<le> 10"
    and "page_length (orders_GET st sp) \<le> 10"
    and "page_length (users_GET st sp) \<le> 10"
  using page_size_capped [of sp 10 st] assms
  by (simp_all add: or_default_def parse_defaults)

lemma transactions_GET_limit_only:
  "transactions_GET st [(''limit'', s)] =
     (case Math_min (parseIntStr s) 100 of
        Some l \<Rightarrow> Response 200 (BTransactions (sql_limit_offset l 0 (order_by_desc t_createdAt (transactions st))))
      | None \<Rightarrow> server_error)"
  unfolding transactions_GET_def Let_def
  by (simp add: get_def given_def or_default_def parse_defaults split: option.split)

subsection \<open>Balances under the API\<close>






subsection \<open>Placing an order\<close>

lemma orders_POST_created:
  assumes "orders_POST st b now = (Response 201 body, st')"
  shows "\<exists>row. body = BOrder row
            \<and> st' = st\<lparr> orders := orders st @ [row], orders_seq := o_id row \<rparr>
            \<and> positive_int (field b ''quantity'') = Some (o_quantity row)
            \<and> positive_float (field b ''charge'') = Some (o_charge row)
            \<and> parseInt (field b ''userId'') = Some (o_userId row)
            \<and> truthy (field b ''userId'')
            \<and> filter (\<lambda>u. u_id u = o_userId row) (users st) \<noteq> []
            \<and> o_id row = fresh_id (orders_seq st) (map o_id (orders st))"
  using assms unfolding orders_POST_def Let_def
  by (auto split: option.splits if_splits
        simp: bad_request_def server_error_def invalid_status_def)

lemma orders_POST_status:
  "status_of (fst (orders_POST st b now)) = 201 \<or> rejection (fst (orders_POST st b now))"
  using orders_POST_result [of st b now "fst (orders_POST st b now)" "snd (orders_POST st b now)"]
  by auto

lemma filter_id_map:
  assumes "\<And>u. u_id (g u) = u_id u"
  shows "filter (\<lambda>u. u_id u = n) (map (\<lambda>u. if u_id u = n then g u else u) us)
           = map g (filter (\<lambda>u. u_id u = n) us)"
  using assms by (induction us) auto

lemma stored_balance_after_put:
  assumes "filter (\<lambda>u. u_id u = n) (users st) = existing # rest"
  shows "stored_balance (st\<lparr> users := map (\<lambda>u. if u_id u = n then u\<lparr> u_updatedAt := now, u_balance := y \<rparr>
                                           else u) (users st) \<rparr>) n = Some y"
proof -
  have "filter (\<lambda>u. u_id u = n) (map (\<lambda>u. if u_id u = n then u\<lparr> u_updatedAt := now, u_balance := y \<rparr> else u) (users st))
          = map (\<lambda>u. u\<lparr> u_updatedAt := now, u_balance := y \<rparr>) (filter (\<lambda>u. u_id u = n) (users st))"
    by (rule filter_id_map) simp
  with assms show ?thesis by (simp add: stored_balance_def)
qed

lemma order_body_fields:
  "field (json_body [(''userId'', uidv), (''serviceId'', sidv), (''link'', lv), (''quantity'', qv),
                     (''charge'', cv), (''status'', sv)]) ''userId'' = uidv"
  "field (json_body [(''userId'', uidv), (''serviceId'', sidv), (''link'', lv), (''quantity'', qv),
                     (''charge'', cv), (''status'', sv)]) ''quantity'' = qv"
  "field (json_body [(''userId'', uidv), (''serviceId'', sidv), (''link'', lv), (''quantity'', qv),
                     (''charge'', cv), (''status'', sv)]) ''charge'' = cv"
  by (simp_all add: field_json_body)

lemma tx_body_fields:
  "field (json_body [(''userId'', v1), (''type'', v2), (''amount'', v3), (''balanceBefore'', v4),
                     (''balanceAfter'', v5), (''description'', v6), (''orderId'', v7)]) ''userId'' = v1"
  "field (json_body [(''userId'', v1), (''type'', v2), (''amount'', v3), (''balanceBefore'', v4),
                     (''balanceAfter'', v5), (''description'', v6), (''orderId'', v7)]) ''type'' = v2"
  "field (json_body [(''userId'', v1), (''type'', v2), (''amount'', v3), (''balanceBefore'', v4),
                     (''balanceAfter'', v5), (''description'', v6), (''orderId'', v7)]) ''amount'' = v3"
  "field (json_body [(''userId'', v1), (''type'', v2), (''amount'', v3), (''balanceBefore'', v4),
                     (''balanceAfter'', v5), (''description'', v6), (''orderId'', v7)]) ''balanceBefore'' = v4"
  "field (json_body [(''userId'', v1), (''type'', v2), (''amount'', v3), (''balanceBefore'', v4),
                     (''balanceAfter'', v5), (''description'', v6), (''orderId'', v7)]) ''balanceAfter'' = v5"
  "field (json_body [(''userId'', v1), (''type'', v2), (''amount'', v3), (''balanceBefore'', v4),
                     (''balanceAfter'', v5), (''description'', v6), (''orderId'', v7)]) ''description'' = v6"
  "field (json_body [(''userId'', v1), (''type'', v2), (''amount'', v3), (''balanceBefore'', v4),
                     (''balanceAfter'', v5), (''description'', v6), (''orderId'', v7)]) ''orderId'' = v7"
  by (simp_all add: field_json_body)

lemma positive_int_json:
  "positive_int (json_num (map_option of_int quantity)) = Some q' \<longleftrightarrow> quantity = Some q' \<and> 0 < q'"
  by (cases quantity) (auto simp: positive_int_def)

lemma positive_float_json: "positive_float (json_num charge) = Some c \<longleftrightarrow> charge = Some c \<and> 0 < c"
  by (cases charge) (auto simp: positive_float_def)

lemma ORDER_valid: "''ORDER'' \<in> set VALID_TRANSACTION_TYPES" "''REFUND'' \<in> set VALID_TRANSACTION_TYPES"
  "''ADMIN_ADJUSTMENT'' \<in> set VALID_TRANSACTION_TYPES"
  by (simp_all add: VALID_TRANSACTION_TYPES_def)

lemma handleOrderSubmit_success:
  assumes "handleOrderSubmit hash st (Some usr) (Some svc) link quantityInput now1 now2 now3
             = (Some (SuccessToast m), st')"
  shows "\<exists>q order tx.
           parseIntStr quantityInput = Some q \<and> s_minOrder svc \<le> q \<and> q \<le> s_maxOrder svc
           \<and> o_quantity order = q \<and> o_charge order = of_int q / 1000 * s_rate svc
           \<and> o_charge order \<le> cu_balance usr \<and> o_userId order = cu_id usr
           \<and> o_id order = fresh_id (orders_seq st) (map o_id (orders st))
           \<and> orders st' = orders st @ [order]
           \<and> transactions st' = transactions st @ [tx]
           \<and> tx = \<lparr> t_id = fresh_id (transactions_seq st) (map t_id (transactions st)),
                     t_userId = cu_id usr, t_type = ''ORDER'', t_amount = - o_charge order,
                     t_balanceBefore = cu_balance usr,
                     t_balanceAfter = cu_balance usr - o_charge order,
                     t_description = trim (''Order #'' @ show_int (o_id order) @ '' - '' @ s_name svc),
                     t_orderId = Some (o_id order), t_createdAt = now3 \<rparr>
           \<and> stored_balance st' (cu_id usr) = Some (cu_balance usr - o_charge order)"
proof -
  let ?quantity = "parseIntStr quantityInput"
  let ?charge = "map_option (\<lambda>q. of_int q / 1000 * s_rate svc) ?quantity"
  let ?body = "json_body [(''userId'', JNum (of_int (cu_id usr))),
                          (''serviceId'', JNum (of_int (s_id svc))),
                          (''link'', JStr link),
                          (''quantity'', json_num (map_option of_int ?quantity)),
                          (''charge'', json_num ?charge),
                          (''status'', JStr ''PENDING'')]"
  obtain orderRes st1 where post: "orders_POST st ?body now1 = (orderRes, st1)"
    by (cases "orders_POST st ?body now1")
  from assms have range: "\<not> (case ?quantity of None \<Rightarrow> False | Some q \<Rightarrow> q < s_minOrder svc \<or> q > s_maxOrder svc)"
    by (auto simp: handleOrderSubmit_def Let_def split: if_splits)
  from assms range have funds: "\<not> (case ?charge of None \<Rightarrow> False | Some c \<Rightarrow> c > cu_balance usr)"
    by (auto simp: handleOrderSubmit_def Let_def split: if_splits)
  from assms range funds post have okr: "ok orderRes"
    by (auto simp: handleOrderSubmit_def Let_def split: bool.splits)
  from assms range funds post okr obtain order where bo: "body_of orderRes = BOrder order"
    by (auto simp: handleOrderSubmit_def Let_def split: body.splits)
  from orders_POST_status [of st ?body now1] post okr have "status_of orderRes = 201"
    by (auto dest: rejection_not_ok)
  with bo have res: "orderRes = Response 201 (BOrder order)"
    by (cases orderRes) simp
  from orders_POST_created [OF post [unfolded res]]
  have st1: "st1 = st\<lparr> orders := orders st @ [order], orders_seq := o_id order \<rparr>"
    and pq: "positive_int (json_num (map_option of_int ?quantity)) = Some (o_quantity order)"
    and pc: "positive_float (json_num ?charge) = Some (o_charge order)"
    and uid: "o_userId order = cu_id usr" "cu_id usr \<noteq> 0"
    and ex: "filter (\<lambda>u. u_id u = o_userId order) (users st) \<noteq> []"
    and oid: "o_id order = fresh_id (orders_seq st) (map o_id (orders st))"
    by (auto simp: order_body_fields)
  from pq have q: "?quantity = Some (o_quantity order)" by (simp add: positive_int_json)
  from pc have c: "?charge = Some (o_charge order)" and cpos: "0 < o_charge order"
    by (simp_all add: positive_float_json)
  from q c have ceq: "o_charge order = of_int (o_quantity order) / 1000 * s_rate svc" by simp
  from range q have inr: "s_minOrder svc \<le> o_quantity order" "o_quantity order \<le> s_maxOrder svc"
    by simp_all
  from funds have "\<not> of_int (o_quantity order) / 1000 * s_rate svc > cu_balance usr"
    unfolding q by simp
  with ceq have le: "o_charge order \<le> cu_balance usr" by simp
  from ex uid obtain existing rest where
    f: "filter (\<lambda>u. u_id u = cu_id usr) (users st1) = existing # rest"
    by (cases "filter (\<lambda>u. u_id u = cu_id usr) (users st)") (auto simp: st1)
  let ?st2 = "st1\<lparr> users := map (\<lambda>u. if u_id u = cu_id usr
                                      then u\<lparr> u_updatedAt := now2, u_balance := cu_balance usr - o_charge order \<rparr>
                                      else u) (users st1) \<rparr>"
  from le have "0 \<le> cu_balance usr - o_charge order" by simp
  from users_PUT_balance_ok [OF f this, where hash = hash and now = now2]
  have put: "snd (users_PUT hash st1 [(''id'', show_int (cu_id usr))]
                    (json_body [(''balance'', JNum (cu_balance usr - o_charge order))]) now2) = ?st2"
    by simp
  let ?tx = "\<lparr> t_id = fresh_id (transactions_seq st) (map t_id (transactions st)),
                t_userId = cu_id usr, t_type = ''ORDER'', t_amount = - o_charge order,
                t_balanceBefore = cu_balance usr,
                t_balanceAfter = cu_balance usr - o_charge order,
                t_description = trim (''Order #'' @ show_int (o_id order) @ '' - '' @ s_name svc),
                t_orderId = Some (o_id order), t_createdAt = now3 \<rparr>"
  let ?txbody = "json_body [(''userId'', JNum (of_int (cu_id usr))),
                            (''type'', JStr ''ORDER''),
                            (''amount'', JNum (- o_charge order)),
                            (''balanceBefore'', JNum (cu_balance usr)),
                            (''balanceAfter'', JNum (cu_balance usr - o_charge order)),
                            (''description'',
                               JStr (''Order #'' @ show_int (o_id order) @ '' - '' @ s_name svc)),
                            (''orderId'', JNum (of_int (o_id order)))]"
  have tx: "snd (transactions_POST ?st2 ?txbody now3) =
              ?st2\<lparr> transactions := transactions ?st2 @ [?tx], transactions_seq := t_id ?tx \<rparr>"
    using uid cpos
    by (subst transactions_POST_accepts [where uid = "cu_id usr" and ty = "''ORDER''"
          and a = "- o_charge order" and bb = "cu_balance usr"
          and ba = "cu_balance usr - o_charge order"
          and d = "''Order #'' @ show_int (o_id order) @ '' - '' @ s_name svc"
          and oid = "o_id order"])
       (simp_all add: tx_body_fields ORDER_valid st1)
  from assms range funds post res c
  have "st' = snd (transactions_POST
                     (snd (users_PUT hash st1 [(''id'', show_int (cu_id usr))]
                        (json_body [(''balance'', JNum (cu_balance usr - o_charge order))]) now2))
                     ?txbody now3)"
    by (simp add: handleOrderSubmit_def Let_def ok_def split: prod.splits)
  with put tx have st': "st' = ?st2\<lparr> transactions := transactions ?st2 @ [?tx], transactions_seq := t_id ?tx \<rparr>"
    by simp
  have bal: "stored_balance st' (cu_id usr) = Some (cu_balance usr - o_charge order)"
    using stored_balance_after_put [OF f, where now = now2 and y = "cu_balance usr - o_charge order"]
    by (simp add: st' stored_balance_def)
  from st' st1 have "orders st' = orders st @ [order]" "transactions st' = transactions st @ [?tx]"
    by simp_all
  with q inr ceq le uid oid bal show ?thesis by blast
qed




lemma handleOrderSubmit_success_message:
  "fst (handleOrderSubmit hash st user selectedService link quantityInput now1 now2 now3) = Some (SuccessToast m)
     \<Longrightarrow> m = ''Order placed successfully!''"
  unfolding handleOrderSubmit_def Let_def
  by (auto split: option.splits if_splits prod.splits bool.splits body.splits)







subsection \<open>Refunding an order\<close>







subsection \<open>Adjusting a balance\<close>



lemma ledger_sum_users [simp]: "ledger_sum (st\<lparr> users := us \<rparr>) uid = ledger_sum st uid"
  by (simp add: ledger_sum_def ledger_def)




lemma order_form_keeps_difference:
  assumes "handleOrderSubmit hash st (Some usr) (Some svc) link quantityInput now1 now2 now3
             = (Some (SuccessToast m), st')"
  shows "\<exists>bal'. stored_balance st' (cu_id usr) = Some bal'
           \<and> bal' - ledger_sum st' (cu_id usr) = cu_balance usr - ledger_sum st (cu_id usr)"
  using handleOrderSubmit_success [OF assms]
  by (auto simp: ledger_sum_def ledger_def)



section \<open>The claims\<close>

text \<open>
  C10 (as amended). A transactions POST whose \<open>amount\<close> is the number 0 is answered with
  status 400 and leaves the store as it was. Its error code is \<open>INVALID_AMOUNT\<close> when the
  checks that come first pass: \<open>userId\<close>, \<open>type\<close> and \<open>description\<close> truthy,
  \<open>balanceBefore\<close> and \<open>balanceAfter\<close> neither null nor undefined, and \<open>type\<close> one of the
  valid types. A request with a numeric amount either adds no row or adds exactly one row,
  which carries that amount, and the amount is not 0.
\<close>

theorem zero_amount_rejected:
  assumes "field b ''amount'' = JNum a"
  shows "(a = 0 \<longrightarrow> status_of (fst (transactions_POST st b now)) = 400
                  \<and> snd (transactions_POST st b now) = st)
       \<and> (a = 0 \<and> truthy (field b ''userId'') \<and> truthy (field b ''type'')
            \<and> \<not> nullish (field b ''balanceBefore'') \<and> \<not> nullish (field b ''balanceAfter'')
            \<and> truthy (field b ''description'') \<and> field b ''type'' \<in> JStr ` set VALID_TRANSACTION_TYPES
           \<longrightarrow> fst (transactions_POST st b now) = bad_request ''amount cannot be zero'' ''INVALID_AMOUNT'')
       \<and> (transactions (snd (transactions_POST st b now)) = transactions st
            \<or> (\<exists>row. transactions (snd (transactions_POST st b now)) = transactions st @ [row]
                      \<and> t_amount row = a \<and> a \<noteq> 0))"
proof (intro conjI impI)
  assume z: "a = 0"
  show "status_of (fst (transactions_POST st b now)) = 400"
    using assms z unfolding transactions_POST_def Let_def by (simp add: nullish_def)
  show "snd (transactions_POST st b now) = st"
    using assms z unfolding transactions_POST_def Let_def by (simp add: nullish_def)
next
  assume "a = 0 \<and> truthy (field b ''userId'') \<and> truthy (field b ''type'')
            \<and> \<not> nullish (field b ''balanceBefore'') \<and> \<not> nullish (field b ''balanceAfter'')
            \<and> truthy (field b ''description'') \<and> field b ''type'' \<in> JStr ` set VALID_TRANSACTION_TYPES"
  then show "fst (transactions_POST st b now) = bad_request ''amount cannot be zero'' ''INVALID_AMOUNT''"
    using assms unfolding transactions_POST_def Let_def by (simp add: nullish_def)
next
  obtain r st' where p: "transactions_POST st b now = (r, st')"
    by (cases "transactions_POST st b now")
  from transactions_POST_result [OF p] assms
  show "transactions (snd (transactions_POST st b now)) = transactions st
            \<or> (\<exists>row. transactions (snd (transactions_POST st b now)) = transactions st @ [row]
                      \<and> t_amount row = a \<and> a \<noteq> 0)"
    unfolding p by auto
qed

theorem zero_amount_rejected_witness:
  "field zero_amount_body ''amount'' = JNum 0
   \<and> truthy (field zero_amount_body ''userId'') \<and> truthy (field zero_amount_body ''type'')
   \<and> \<not> nullish (field zero_amount_body ''balanceBefore'')
   \<and> \<not> nullish (field zero_amount_body ''balanceAfter'')
   \<and> truthy (field zero_amount_body ''description'')
   \<and> field zero_amount_body ''type'' \<in> JStr ` set VALID_TRANSACTION_TYPES
   \<and> fst (transactions_POST store0 zero_amount_body ''2024-03-01T10:00:00.000Z'')
       = bad_request ''amount cannot be zero'' ''INVALID_AMOUNT''
   \<and> snd (transactions_POST store0 zero_amount_body ''2024-03-01T10:00:00.000Z'') = store0"
  using zero_amount_rejected [of zero_amount_body 0 store0 "''2024-03-01T10:00:00.000Z''"]
  by (simp add: zero_amount_body_def field_def nullish_def VALID_TRANSACTION_TYPES_def)

text \<open>
  C10 as first stated gives the code \<open>INVALID_AMOUNT\<close> to every request with amount 0. The
  required-field checks come first in the handler: a body that holds only \<open>amount: 0\<close> is
  answered with \<open>MISSING_USER_ID\<close>.
\<close>

theorem zero_amount_other_code:
  "fst (transactions_POST store0 [(''amount'', JNum 0)] ''2024-03-01T10:00:00.000Z'')
     = Response 400 (BError ''userId is required'' (Some ''MISSING_USER_ID''))
   \<and> fst (transactions_POST store0 [(''amount'', JNum 0)] ''2024-03-01T10:00:00.000Z'')
     \<noteq> Response 400 (BError ''amount cannot be zero'' (Some ''INVALID_AMOUNT''))"
  by (simp add: transactions_POST_def field_def bad_request_def)

text \<open>
  C9. No response of the users route (single GET, list GET, POST, PUT, DELETE) and no
  response of the authenticated-user endpoint holds a user object with a \<open>password\<close>
  property.
\<close>

theorem password_never_returned:
  "list_all (\<lambda>obj. map_of obj ''password'' = None) (user_objects (users_GET st sp))
   \<and> list_all (\<lambda>obj. map_of obj ''password'' = None) (user_objects (fst (users_POST hash st b now)))
   \<and> list_all (\<lambda>obj. map_of obj ''password'' = None) (user_objects (fst (users_PUT hash st sp b now)))
   \<and> list_all (\<lambda>obj. map_of obj ''password'' = None) (user_objects (fst (users_DELETE st sp)))
   \<and> list_all (\<lambda>obj. map_of obj ''password'' = None) (user_objects (auth_me_GET st session))"
  by (simp only: users_GET_no_password users_POST_no_password users_PUT_no_password
        users_DELETE_no_password auth_me_GET_no_password simp_thms)

theorem password_never_returned_witness:
  "map_of (user_row alice) ''password'' = Some (JStr ''$2b$10$hashed'')
   \<and> user_objects (users_GET store1 [(''id'', ''1'')]) = [excludePassword (user_row alice)]
   \<and> map_of (excludePassword (user_row alice)) ''password'' = None
   \<and> map_of (excludePassword (user_row alice)) ''email'' = Some (JStr ''alice@example.com'')"
proof -
  have g: "users_GET store1 [(''id'', ''1'')] = Response 200 (BUser (excludePassword (user_row alice)))"
    using users_GET_one [of store1 1]
    by (simp add: show_int_1 store1_def alice_fields)
  from password_never_returned [of store1 "[(''id'', ''1'')]" id "[]" "''x''" None]
  have "list_all (\<lambda>obj. map_of obj ''password'' = None) (user_objects (users_GET store1 [(''id'', ''1'')]))"
    by blast
  with g show ?thesis
    by (simp add: user_row_def alice_def excludePassword_def)
qed

text \<open>
  C8. The list that GET of the transactions route returns is in descending order of
  \<open>createdAt\<close>, and when a \<open>type\<close>, \<open>orderId\<close> or \<open>userId\<close> parameter is given, every
  returned entry has that type, that order id, that user id.
\<close>

theorem listEntries_sorted_and_filtered:
  assumes "transactions_GET st sp = Response 200 (BTransactions rows)"
  shows "sorted_wrt (\<lambda>x y. t_createdAt x \<ge> t_createdAt y) rows
       \<and> (given (get sp ''type'') \<longrightarrow> (\<forall>t \<in> set rows. Some (t_type t) = get sp ''type''))
       \<and> (given (get sp ''orderId'') \<longrightarrow>
            (\<forall>t \<in> set rows. t_orderId t \<noteq> None \<and> t_orderId t = parseIntStr (or_default (get sp ''orderId'') [])))
       \<and> (given (get sp ''userId'') \<longrightarrow>
            (\<forall>t \<in> set rows. Some (t_userId t) = parseIntStr (or_default (get sp ''userId'') [])))
       \<and> set rows \<subseteq> set (transactions st)"
proof -
  from transactions_GET_page [OF assms] obtain l off conds where
    rows: "rows = sql_limit_offset l off (order_by_desc t_createdAt (where_and conds (transactions st)))"
    and conds: "conds =
           (if given (get sp ''userId'')
             then [\<lambda>t. Some (t_userId t) = parseIntStr (or_default (get sp ''userId'') [])] else [])
            @ (if given (get sp ''type'') then [\<lambda>t. t_type t = or_default (get sp ''type'') []] else [])
            @ (if given (get sp ''orderId'')
               then [\<lambda>t. t_orderId t \<noteq> None \<and> t_orderId t = parseIntStr (or_default (get sp ''orderId'') [])]
               else [])"
    by blast
  have sub: "set rows \<subseteq> set (where_and conds (transactions st))"
    using set_sql_limit_offset [of l off "order_by_desc t_createdAt (where_and conds (transactions st))"]
    by (simp add: rows)
  have sorted: "sorted_wrt (\<lambda>x y. t_createdAt x \<ge> t_createdAt y) rows"
    unfolding rows by (rule sql_limit_offset_sorted) (rule order_by_desc_sorted)
  have ty: "given (get sp ''type'') \<longrightarrow> (\<forall>t \<in> set rows. Some (t_type t) = get sp ''type'')"
  proof (intro impI ballI)
    fix t assume g: "given (get sp ''type'')" and t: "t \<in> set rows"
    from g have "(\<lambda>t. t_type t = or_default (get sp ''type'') []) \<in> set conds" by (simp add: conds)
    from where_and_holds [OF _ this] t sub have "t_type t = or_default (get sp ''type'') []" by blast
    with g show "Some (t_type t) = get sp ''type''"
      by (auto simp: given_def or_default_def split: option.splits)
  qed
  have oid: "given (get sp ''orderId'') \<longrightarrow>
            (\<forall>t \<in> set rows. t_orderId t \<noteq> None \<and> t_orderId t = parseIntStr (or_default (get sp ''orderId'') []))"
  proof (intro impI ballI)
    fix t assume g: "given (get sp ''orderId'')" and t: "t \<in> set rows"
    from g have "(\<lambda>t. t_orderId t \<noteq> None \<and> t_orderId t = parseIntStr (or_default (get sp ''orderId'') []))
                   \<in> set conds" by (simp add: conds)
    from where_and_holds [OF _ this] t sub
    show "t_orderId t \<noteq> None \<and> t_orderId t = parseIntStr (or_default (get sp ''orderId'') [])" by blast
  qed
  have uid: "given (get sp ''userId'') \<longrightarrow>
            (\<forall>t \<in> set rows. Some (t_userId t) = parseIntStr (or_default (get sp ''userId'') []))"
  proof (intro impI ballI)
    fix t assume g: "given (get sp ''userId'')" and t: "t \<in> set rows"
    from g have "(\<lambda>t. Some (t_userId t) = parseIntStr (or_default (get sp ''userId'') [])) \<in> set conds"
      by (simp add: conds)
    from where_and_holds [OF _ this] t sub
    show "Some (t_userId t) = parseIntStr (or_default (get sp ''userId'') [])" by blast
  qed
  from sub set_where_and [of conds "transactions st"] have "set rows \<subseteq> set (transactions st)"
    by blast
  with sorted ty oid uid show ?thesis by blast
qed

theorem listEntries_sorted_and_filtered_witness:
  "transactions_GET ledger_store order_entries_query =
     Response 200 (BTransactions [entry 3 ''ORDER'' (-1) (Some 7) ''2024-03-03T09:00:00.000Z'',
                                  entry 1 ''ORDER'' (-2) (Some 7) ''2024-03-01T09:00:00.000Z''])
   \<and> given (get order_entries_query ''type'') \<and> given (get order_entries_query ''orderId'')
   \<and> given (get order_entries_query ''userId'')
   \<and> sorted_wrt (\<lambda>x y. t_createdAt x \<ge> t_createdAt y)
         [entry 3 ''ORDER'' (-1) (Some 7) ''2024-03-03T09:00:00.000Z'',
          entry 1 ''ORDER'' (-2) (Some 7) ''2024-03-01T09:00:00.000Z'']
   \<and> list_all (\<lambda>t. Some (t_type t) = get order_entries_query ''type'' \<and> t_orderId t = Some 7)
         [entry 3 ''ORDER'' (-1) (Some 7) ''2024-03-03T09:00:00.000Z'',
          entry 1 ''ORDER'' (-2) (Some 7) ''2024-03-01T09:00:00.000Z'']"
proof -
  have given_all: "given (get order_entries_query ''type'')" "given (get order_entries_query ''orderId'')"
    "given (get order_entries_query ''userId'')"
    by (simp_all add: order_entries_query_def get_def given_def)
  have parsed: "parseIntStr (or_default (get order_entries_query ''orderId'') []) = Some 7"
    by code_simp
  from listEntries_sorted_and_filtered [OF order_entries_page] given_all parsed order_entries_page
  show ?thesis
    by (simp add: list_all_iff)
qed

text \<open>
  C7. The page size is \<open>Math.min(parseInt(limit), 100)\<close>, which caps a request for more than
  100 rows and is 10 when no limit is given (\<open>page_size_capped\<close>, \<open>default_page_size\<close>).
  A negative limit passes the minimum unchanged and SQLite reads it as no limit at all:
  with 101 ledger rows in the table, \<open>limit=-1\<close> returns all 101.
\<close>

theorem negative_limit_unbounded:
  "status_of (transactions_GET busy_store [(''limit'', ''-1'')]) = 200
   \<and> page_length (transactions_GET busy_store [(''limit'', ''-1'')]) = 101"
  by (simp add: transactions_GET_limit_only parse_defaults Math_min_def sql_limit_offset_unbounded
        busy_store_def)






















end
